theory Spec2Isabelle
  imports Complex_Main
begin

section \<open>Common ground: errors and number conversions\<close>

text \<open>
  The Python exceptions that the modelled functions of \<^verbatim>\<open>utils/data.py\<close> and
  \<^verbatim>\<open>utils/segmentmap.py\<close> can raise. A function that can raise returns
  \<open>error + 'a\<close>, with \<open>Inl\<close> for the exception.
\<close>

datatype error = IndexError | ValueError | KeyError | OverflowError

text \<open>
  \<^verbatim>\<open>int(x)\<close> and \<^verbatim>\<open>x.astype(np.int)\<close> on a floating-point value drop the
  fractional part (rounding toward zero). Floating-point values are modelled as reals.
\<close>

definition to_int :: "real \<Rightarrow> int" where
  "to_int x = (if 0 \<le> x then \<lfloor>x\<rfloor> else \<lceil>x\<rceil>)"

section \<open>Boundary clamp: \<^verbatim>\<open>inside_box\<close> (utils/data.py)\<close>

text \<open>
  \<^verbatim>\<open>points\<close> is a list with one \<open>n \<times> 2\<close> integer array per axis; each row of such
  an array is a window \<open>(lower, upper)\<close>. An array is modelled as the list of its rows.

  \<^verbatim>\<open>np.where(points[i] < min_values[i])[0]\<close> lists, in row-major order, the row index
  of every cell that satisfies the comparison, so a row both of whose cells satisfy it is
  listed twice.
\<close>

definition where_rows :: "(int \<Rightarrow> bool) \<Rightarrow> (int \<times> int) list \<Rightarrow> nat list" where
  "where_rows P ws =
     concat (map (\<lambda>j. (if P (fst (ws ! j)) then [j] else []) @
                       (if P (snd (ws ! j)) then [j] else []))
                 [0..<length ws])"

text \<open>
  The loop \<^verbatim>\<open>for j in rows: points[i][j, 0] = a; points[i][j, 1] = b\<close>.
\<close>

definition move_rows :: "nat list \<Rightarrow> int \<times> int \<Rightarrow> (int \<times> int) list \<Rightarrow> (int \<times> int) list" where
  "move_rows js w ws = foldl (\<lambda>a j. a[j := w]) ws js"

text \<open>
  The body of the loop over the axes, for one axis: the clamp against the minimum, then
  the clamp against the maximum. \<^verbatim>\<open>total_length\<close> is read from row 0 of the array as it
  is at that moment, and only when some row has to move (so the array has a row 0).
\<close>

definition clamp_axis :: "int \<Rightarrow> int \<Rightarrow> (int \<times> int) list \<Rightarrow> (int \<times> int) list" where
  "clamp_axis mn mx ws =
     (let less_min = where_rows (\<lambda>v. v < mn) ws;
          ws1 = (if length less_min > 0
                 then (let total_length = snd (ws ! 0) - fst (ws ! 0)
                       in move_rows less_min (mn, mn + total_length) ws)
                 else ws);
          greater_max = where_rows (\<lambda>v. v \<ge> mx) ws1
      in (if length greater_max > 0
          then (let total_length = snd (ws1 ! 0) - fst (ws1 ! 0)
                in move_rows greater_max (mx - total_length - 1, mx - 1) ws1)
          else ws1))"

text \<open>
  \<^verbatim>\<open>inside_box(points, min_values, max_values)\<close>: axis \<open>i\<close> reads \<^verbatim>\<open>min_values[i]\<close> and
  \<^verbatim>\<open>max_values[i]\<close>; a bounds list shorter than \<^verbatim>\<open>points\<close> raises IndexError. The three
  lists are walked together, which is the loop over \<^verbatim>\<open>range(len(points))\<close>.
\<close>

fun inside_box :: "(int \<times> int) list list \<Rightarrow> int list \<Rightarrow> int list \<Rightarrow> error + (int \<times> int) list list" where
  "inside_box [] min_values max_values = Inr []"
| "inside_box (p # ps) [] max_values = Inl IndexError"
| "inside_box (p # ps) (mn # mins) [] = Inl IndexError"
| "inside_box (p # ps) (mn # mins) (mx # maxs) =
     (case inside_box ps mins maxs of
        Inl e \<Rightarrow> Inl e
      | Inr r \<Rightarrow> Inr (clamp_axis mn mx p # r))"

text \<open>
  What the clamp is meant to guarantee for one window: the length is kept, and both bounds
  lie in \<open>[mn, mx)\<close>.
\<close>

definition window_ok :: "int \<Rightarrow> int \<Rightarrow> int \<times> int \<Rightarrow> int \<times> int \<Rightarrow> bool" where
  "window_ok mn mx w_in w_out =
     (snd w_out - fst w_out = snd w_in - fst w_in \<and>
      mn \<le> fst w_out \<and> fst w_out < mx \<and> mn \<le> snd w_out \<and> snd w_out < mx)"

section \<open>Window placement: \<^verbatim>\<open>random_center_box\<close> (utils/data.py)\<close>

text \<open>
  A two-dimensional array of floating-point draws, of shape \<open>(length rows, ncol)\<close>. The
  number of columns is kept beside the rows because an array without rows still has one
  (\<^verbatim>\<open>rdn.shape[1]\<close>). In a well-formed array every row has \<open>ncol\<close> cells.
\<close>

record array2 =
  ncol :: nat
  rows :: "real list list"

definition wf_array2 :: "array2 \<Rightarrow> bool" where
  "wf_array2 a = list_all (\<lambda>r. length r = ncol a) (rows a)"

text \<open>
  \<^verbatim>\<open>random_center_box\<close>: column \<open>i\<close> of the draws gives the lower bounds on axis \<open>i\<close>.
  \<^verbatim>\<open>center_point[i]\<close> is read for every axis (also when there is no row), so fewer
  centre coordinates than columns raise IndexError.
\<close>

definition random_center_box ::
  "array2 \<Rightarrow> int \<Rightarrow> int list \<Rightarrow> int \<Rightarrow> int list \<Rightarrow> int list \<Rightarrow> error + (int \<times> int) list list" where
  "random_center_box rdn total_length center_point precuation min_values max_values =
     (let dim = ncol rdn;
          radius = to_int (real_of_int total_length / 2) - precuation
      in if length center_point < dim then Inl IndexError
         else inside_box
                (map (\<lambda>i. map (\<lambda>r. (let lo = to_int (r ! i * 2 * real_of_int radius
                                                      + real_of_int (center_point ! i)
                                                      - real_of_int (to_int (real_of_int total_length / 2))
                                                      - real_of_int radius)
                                      in (lo, lo + total_length)))
                              (rows rdn))
                     [0..<dim])
                min_values max_values)"

text \<open>
  The effect of both clamps on one window of an axis whose windows all have length \<open>L\<close>
  (used to describe \<open>clamp_axis\<close> row by row).
\<close>

definition clamp_window :: "int \<Rightarrow> int \<Rightarrow> int \<Rightarrow> int \<times> int \<Rightarrow> int \<times> int" where
  "clamp_window mn mx L w =
     (let w1 = (if fst w < mn \<or> snd w < mn then (mn, mn + L) else w)
      in if fst w1 \<ge> mx \<or> snd w1 \<ge> mx then (mx - L - 1, mx - 1) else w1)"

section \<open>The sampling sequence: \<^verbatim>\<open>Randomizer\<close> (utils/data.py)\<close>

text \<open>
  \<^verbatim>\<open>np.random.uniform\<close> draws from the process-wide generator of numpy. Whatever the
  generator is, its state determines the sequence of all its future draws, and a draw
  consumes a prefix of that sequence; so the state is modelled as that sequence.
  \<^verbatim>\<open>np.random.uniform(size=(n, d))\<close> fills an \<open>n \<times> d\<close> array in row-major order with
  the next \<open>n * d\<close> draws.
\<close>

type_synonym rng = "nat \<Rightarrow> real"

definition uniform :: "nat \<Rightarrow> nat \<Rightarrow> rng \<Rightarrow> array2 \<times> rng" where
  "uniform n d g =
     (\<lparr>ncol = d, rows = map (\<lambda>i. map (\<lambda>j. g (i * d + j)) [0..<d]) [0..<n]\<rparr>,
      \<lambda>k. g (k + n * d))"

text \<open>
  The two library functions the class calls and that are not part of the repository are
  parameters of the model: \<^verbatim>\<open>sobol_seq.i4_sobol_generate(dim_num, n, skip)\<close>, a function
  of its three arguments (the \<open>n\<close> points of the Sobol sequence in \<open>dim_num\<close> dimensions
  from index \<open>skip\<close> on), and \<^verbatim>\<open>np.random.seed(x)\<close>, which replaces the state of the
  generator by one that depends on \<open>x\<close> only. Sizes are natural numbers: a negative size
  raises in both generators before anything changes.
\<close>

record libs =
  i4_sobol_generate :: "nat \<Rightarrow> nat \<Rightarrow> nat \<Rightarrow> array2"
  seeded_state :: "int \<Rightarrow> rng"

text \<open>
  The object: its two attributes \<^verbatim>\<open>seed\<close> and \<^verbatim>\<open>counter\<close>. The attributes \<^verbatim>\<open>rand\<close> and
  \<^verbatim>\<open>reset_f\<close> are lambdas chosen in \<^verbatim>\<open>__init__\<close> by \<^verbatim>\<open>seed is None\<close>; they are the
  functions \<open>rand\<close> and \<open>reset_f\<close> below, which make the same choice. \<^verbatim>\<open>__init__\<close> stores the
  seed and sets the counter; it does not call \<^verbatim>\<open>np.random.seed\<close>.
\<close>

record Randomizer =
  seed :: "int option"
  counter :: nat

definition Randomizer_init :: "int option \<Rightarrow> Randomizer" where
  "Randomizer_init s = \<lparr>seed = s, counter = 0\<rparr>"

definition rand :: "libs \<Rightarrow> Randomizer \<Rightarrow> nat \<Rightarrow> nat \<Rightarrow> nat \<Rightarrow> rng \<Rightarrow> array2 \<times> rng" where
  "rand lib r n d s g =
     (case seed r of
        None \<Rightarrow> (i4_sobol_generate lib d n s, g)
      | Some x \<Rightarrow> uniform n d g)"

text \<open>
  \<^verbatim>\<open>np.random.seed(x)\<close> raises ValueError unless \<open>0 \<le> x < 2^32\<close>.
\<close>

definition reset_f :: "libs \<Rightarrow> Randomizer \<Rightarrow> rng \<Rightarrow> error + rng" where
  "reset_f lib r g =
     (case seed r of
        None \<Rightarrow> Inr g
      | Some x \<Rightarrow> if 0 \<le> x \<and> x < 2 ^ 32 then Inr (seeded_state lib x) else Inl ValueError)"

definition reset :: "libs \<Rightarrow> Randomizer \<Rightarrow> rng \<Rightarrow> error + (Randomizer \<times> rng)" where
  "reset lib r g =
     (case reset_f lib (r\<lparr>counter := 0\<rparr>) g of
        Inl e \<Rightarrow> Inl e
      | Inr g' \<Rightarrow> Inr (r\<lparr>counter := 0\<rparr>, g'))"

definition sample :: "libs \<Rightarrow> Randomizer \<Rightarrow> nat \<Rightarrow> nat \<Rightarrow> rng \<Rightarrow> array2 \<times> Randomizer \<times> rng" where
  "sample lib r n d g =
     (let (s, g') = rand lib r n d (counter r) g
      in (s, r\<lparr>counter := counter r + n\<rparr>, g'))"

definition rr_sample :: "libs \<Rightarrow> Randomizer \<Rightarrow> nat \<Rightarrow> nat \<Rightarrow> rng \<Rightarrow> array2 \<times> rng" where
  "rr_sample lib r n d g = rand lib r n d 0 g"

definition reset_sample ::
  "libs \<Rightarrow> Randomizer \<Rightarrow> nat \<Rightarrow> nat \<Rightarrow> rng \<Rightarrow> error + (array2 \<times> Randomizer \<times> rng)" where
  "reset_sample lib r n d g =
     (case reset lib r g of
        Inl e \<Rightarrow> Inl e
      | Inr (r', g') \<Rightarrow> (let (s, g'') = rand lib r' n d (counter r') g' in Inr (s, r', g'')))"

text \<open>
  A history of calls on one object. \<open>do_calls\<close> gives the object and the generator after
  the calls; \<open>sample_seq\<close> gives the results of a sequence of \<^verbatim>\<open>sample(n, d)\<close> calls.
\<close>

datatype call = Sample nat nat | RrSample nat nat | ResetSample nat nat | Reset

fun do_call :: "libs \<Rightarrow> call \<Rightarrow> Randomizer \<times> rng \<Rightarrow> error + (Randomizer \<times> rng)" where
  "do_call lib (Sample n d) (r, g) = Inr (snd (sample lib r n d g))"
| "do_call lib (RrSample n d) (r, g) = Inr (r, snd (rr_sample lib r n d g))"
| "do_call lib (ResetSample n d) (r, g) =
     (case reset_sample lib r n d g of Inl e \<Rightarrow> Inl e | Inr (s, r', g') \<Rightarrow> Inr (r', g'))"
| "do_call lib Reset (r, g) = reset lib r g"

fun do_calls :: "libs \<Rightarrow> call list \<Rightarrow> Randomizer \<times> rng \<Rightarrow> error + (Randomizer \<times> rng)" where
  "do_calls lib [] st = Inr st"
| "do_calls lib (c # cs) st =
     (case do_call lib c st of Inl e \<Rightarrow> Inl e | Inr st' \<Rightarrow> do_calls lib cs st')"

fun sample_seq :: "libs \<Rightarrow> (nat \<times> nat) list \<Rightarrow> Randomizer \<times> rng \<Rightarrow> array2 list" where
  "sample_seq lib [] st = []"
| "sample_seq lib ((n, d) # nds) (r, g) =
     (let (s, st') = sample lib r n d g in s # sample_seq lib nds st')"

text \<open>
  The block that \<^verbatim>\<open>rr_sample(n, d)\<close> returns after a history of calls.
\<close>

definition rr_after :: "libs \<Rightarrow> call list \<Rightarrow> Randomizer \<times> rng \<Rightarrow> nat \<Rightarrow> nat \<Rightarrow> error + array2" where
  "rr_after lib cs st n d =
     (case do_calls lib cs st of
        Inl e \<Rightarrow> Inl e
      | Inr (r', g') \<Rightarrow> Inr (fst (rr_sample lib r' n d g')))"

text \<open>
  Concrete stand-ins for the library functions and for generator states, to run the model
  on: an index-addressable sequence whose point \<open>k\<close> is \<open>1 / (k + 2)\<close> in every
  dimension, a seeding function, and two generator states as two processes may start
  with.
\<close>

definition example_libs :: libs where
  "example_libs =
     \<lparr>i4_sobol_generate = (\<lambda>d n s. \<lparr>ncol = d, rows = map (\<lambda>k. replicate d (1 / (real k + 2))) [s..<s + n]\<rparr>),
      seeded_state = (\<lambda>x k. 1 / (real (nat x) + real k + 2))\<rparr>"

definition example_rng_a :: rng where
  "example_rng_a = (\<lambda>k. 1 / (real k + 2))"

definition example_rng_b :: rng where
  "example_rng_b = (\<lambda>k. 1 / (real k + 5))"

section \<open>Clipping a stamp to the cube: \<^verbatim>\<open>get_spans\<close> (utils/segmentmap.py)\<close>

text \<open>
  One round of the loop over \<^verbatim>\<open>zip(image_coords, full_cube_shape, small_cube_shape)\<close>;
  \<^verbatim>\<open>int(small_length / 2)\<close> is a true division followed by a truncation.
\<close>

definition span :: "int \<Rightarrow> int \<Rightarrow> int \<Rightarrow> int \<times> int" where
  "span p full_length small_length =
     (let dim_span_lower = (if p - to_int (real_of_int small_length / 2) < 0 then p
                            else to_int (real_of_int small_length / 2));
          dim_span_upper = (if p + to_int (real_of_int small_length / 2) > full_length
                            then full_length - p
                            else to_int (real_of_int small_length / 2))
      in (dim_span_lower, dim_span_upper + 1))"

text \<open>
  \<^verbatim>\<open>zip\<close> stops at the shortest of the three sequences.
\<close>

fun get_spans :: "int list \<Rightarrow> int list \<Rightarrow> int list \<Rightarrow> (int \<times> int) list" where
  "get_spans (full_length # fs) (small_length # ss) (p # ps) =
     span p full_length small_length # get_spans fs ss ps"
| "get_spans full_cube_shape small_cube_shape image_coords = []"

text \<open>
  The index range that \<^verbatim>\<open>create_from_df\<close> writes on one axis,
  \<^verbatim>\<open>slice(c - s[0], c + s[1])\<close> with \<open>c\<close> the record's coordinate, and whether it lies
  within an axis of length \<open>full_length\<close>.
\<close>

definition dest_range :: "int \<Rightarrow> int \<times> int \<Rightarrow> int \<times> int" where
  "dest_range c s = (c - fst s, c + snd s)"

definition range_in_axis :: "int \<Rightarrow> int \<times> int \<Rightarrow> bool" where
  "range_in_axis full_length rg = (0 \<le> fst rg \<and> snd rg \<le> full_length)"

section \<open>Three-dimensional arrays and \<^verbatim>\<open>create_sourcemap\<close> (utils/data.py)\<close>

text \<open>
  A three-dimensional array: its shape and its cells. Cells outside the shape are never
  read; the arrays built here hold \<open>0\<close> there.
\<close>

record 'a volume =
  vshape :: "nat \<times> nat \<times> nat"
  voxel :: "nat \<times> nat \<times> nat \<Rightarrow> 'a"

text \<open>
  An integer index into an axis of length \<open>n\<close>, as numpy reads it: a negative index
  counts from the end, and an index outside \<open>[-n, n)\<close> raises IndexError.
\<close>

definition np_index :: "nat \<Rightarrow> int \<Rightarrow> error + nat" where
  "np_index n i =
     (if 0 \<le> i \<and> i < int n then Inr (nat i)
      else if - int n \<le> i \<and> i < 0 then Inr (nat (int n + i))
      else Inl IndexError)"

text \<open>
  The assignment \<^verbatim>\<open>a[i, j, k] = v\<close>.
\<close>

definition set_voxel :: "'a volume \<Rightarrow> int \<times> int \<times> int \<Rightarrow> 'a \<Rightarrow> error + 'a volume" where
  "set_voxel a idx v =
     (case (vshape a, idx) of ((d0, d1, d2), (i, j, k)) \<Rightarrow>
        (case np_index d0 i of Inl e \<Rightarrow> Inl e | Inr i' \<Rightarrow>
        (case np_index d1 j of Inl e \<Rightarrow> Inl e | Inr j' \<Rightarrow>
        (case np_index d2 k of Inl e \<Rightarrow> Inl e | Inr k' \<Rightarrow>
           Inr (a\<lparr>voxel := (voxel a)((i', j', k') := v)\<rparr>)))))"

text \<open>
  \<^verbatim>\<open>create_sourcemap(positions, dimensions)\<close>: a row of \<^verbatim>\<open>positions\<close> is
  \<open>(pos[0], pos[1], pos[2])\<close>, and the loop sets \<^verbatim>\<open>sourcemap[pos[2], pos[0], pos[1]] = 1\<close>.
\<close>

fun mark_positions :: "(int \<times> int \<times> int) list \<Rightarrow> int volume \<Rightarrow> error + int volume" where
  "mark_positions [] sourcemap = Inr sourcemap"
| "mark_positions (pos # ps) sourcemap =
     (case pos of (p0, p1, p2) \<Rightarrow>
        (case set_voxel sourcemap (p2, p0, p1) 1 of
           Inl e \<Rightarrow> Inl e
         | Inr sourcemap' \<Rightarrow> mark_positions ps sourcemap'))"

definition create_sourcemap :: "(int \<times> int \<times> int) list \<Rightarrow> nat \<times> nat \<times> nat \<Rightarrow> error + int volume" where
  "create_sourcemap positions dimensions =
     mark_positions positions \<lparr>vshape = dimensions, voxel = (\<lambda>_. 0)\<rparr>"

text \<open>
  All cells of an array of a given shape, and the number of its nonzero cells.
\<close>

definition all_indices :: "nat \<times> nat \<times> nat \<Rightarrow> (nat \<times> nat \<times> nat) list" where
  "all_indices sh = (case sh of (d0, d1, d2) \<Rightarrow> List.product [0..<d0] (List.product [0..<d1] [0..<d2]))"

definition count_nonzero :: "int volume \<Rightarrow> nat" where
  "count_nonzero a = length (filter (\<lambda>v. voxel a v \<noteq> 0) (all_indices (vshape a)))"

text \<open>
  A position \<open>(x, y, z)\<close> lies inside a cube of shape \<open>(d0, d1, d2)\<close>, whose axes are
  \<open>(z, x, y)\<close>.
\<close>

definition in_cube :: "nat \<times> nat \<times> nat \<Rightarrow> int \<times> int \<times> int \<Rightarrow> bool" where
  "in_cube sh pos =
     (case (sh, pos) of ((d0, d1, d2), (p0, p1, p2)) \<Rightarrow>
        0 \<le> p2 \<and> p2 < int d0 \<and> 0 \<le> p0 \<and> p0 < int d1 \<and> 0 \<le> p1 \<and> p1 < int d2)"

text \<open>
  The statement of claim C10 about a volume: every cell \<open>(z, x, y)\<close> of it is \<open>1\<close> if
  \<open>(x, y, z)\<close> is a listed position and \<open>0\<close> otherwise.
\<close>

definition marks_positions :: "(int \<times> int \<times> int) list \<Rightarrow> int volume \<Rightarrow> bool" where
  "marks_positions positions a =
     list_all (\<lambda>(i, j, k). voxel a (i, j, k) = (if (int j, int k, int i) \<in> set positions then 1 else 0))
              (all_indices (vshape a))"

section \<open>The stamp of a record: \<^verbatim>\<open>dense_cube\<close> (utils/segmentmap.py)\<close>

text \<open>
  A row of the prepared catalogue, with the columns that \<^verbatim>\<open>create_from_df\<close> and
  \<^verbatim>\<open>dense_cube\<close> read (\<^verbatim>\<open>x\<close>, \<^verbatim>\<open>y\<close>, \<^verbatim>\<open>z\<close> and \<^verbatim>\<open>pa\<close> carry the prefix \<open>row_\<close> here).
\<close>

record catalog_row =
  row_x :: int
  row_y :: int
  row_z :: int
  n_channels :: real
  major_radius_pixels :: real
  minor_radius_pixels :: real
  row_pa :: real

text \<open>
  \<^verbatim>\<open>np.round\<close> rounds to the nearest integer and a half to the even neighbour. Its result
  is still a float; the integral value of that float is what \<open>np_round\<close> returns.
\<close>

definition np_round :: "real \<Rightarrow> int" where
  "np_round v =
     (let f = \<lfloor>v\<rfloor>; r = v - real_of_int f
      in if r < 1 / 2 then f else if 1 / 2 < r then f + 1 else if even f then f else f + 1)"

text \<open>
  \<^verbatim>\<open>.astype(np.int)\<close> on an integral float: the cast to a 64-bit signed integer. A value
  in \<open>[-2\<^sup>6\<^sup>3, 2\<^sup>6\<^sup>3)\<close> is kept; for a value out of that range the conversion gives the
  most negative 64-bit integer, \<open>-2\<^sup>6\<^sup>3\<close>.
\<close>

definition astype_int64 :: "int \<Rightarrow> int" where
  "astype_int64 v = (if - (2 ^ 63) \<le> v \<and> v < 2 ^ 63 then v else - (2 ^ 63))"

text \<open>
  \<^verbatim>\<open>dense_cube(row)\<close>. The cross-section is drawn by \<^verbatim>\<open>skimage.draw.ellipse\<close> into a
  \<open>square_side \<times> square_side\<close> array and rotated by \<^verbatim>\<open>skimage.transform.rotate\<close>, which
  keeps the shape; these two library calls together are the parameter \<open>footprint\<close> (the
  value of the rotated cross-section at a pixel). Both sizes are 64-bit integers after the
  cast; each is incremented only when it is even, so the increment cannot leave the 64-bit
  range. \<^verbatim>\<open>np.repeat\<close> raises ValueError for a negative number of repetitions.
\<close>

definition dense_cube ::
  "(catalog_row \<Rightarrow> nat \<Rightarrow> nat \<times> nat \<Rightarrow> real) \<Rightarrow> catalog_row \<Rightarrow> error + real volume" where
  "dense_cube footprint row =
     (let square_side =
            astype_int64 (np_round (2 * max (major_radius_pixels row) (minor_radius_pixels row)));
          square_side = (if square_side mod 2 = 0 then square_side + 1 else square_side);
          square_side = max 3 square_side;
          cross_section = footprint row (nat square_side);
          channels = astype_int64 (np_round (n_channels row));
          channels = channels + (if channels mod 2 = 0 then 1 else 0)
      in if channels < 0 then Inl ValueError
         else Inr \<lparr>vshape = (nat square_side, nat square_side, nat channels),
                   voxel = (\<lambda>(i, j, k). cross_section (i, j))\<rparr>)"

text \<open>
  ``Forced to the next odd integer'', in the words of the specification.
\<close>

definition force_odd :: "int \<Rightarrow> int" where
  "force_odd k = (if even k then k + 1 else k)"

text \<open>
  A stand-in for the two rasterisation calls, to run the model on: the unrotated ellipse
  around the centre \<open>(square_side / 2, square_side / 2)\<close>.
\<close>

definition example_footprint :: "catalog_row \<Rightarrow> nat \<Rightarrow> nat \<times> nat \<Rightarrow> real" where
  "example_footprint row side px =
     (case px of (i, j) \<Rightarrow>
        if ((real i - real side / 2) / major_radius_pixels row)\<^sup>2
           + ((real j - real side / 2) / minor_radius_pixels row)\<^sup>2 < 1
        then 1 else 0)"

text \<open>
  Catalogue rows to run the model on, all at pixel \<open>(10, 10, 10)\<close>: one of ordinary size,
  whose doubled major radius \<open>5.6\<close> and channel count \<open>3.5\<close> round up; one with a major
  radius of \<open>10\<^sup>1\<^sup>9\<close> pixels; one with \<open>10\<^sup>1\<^sup>9\<close> channels.
\<close>

definition example_row :: catalog_row where
  "example_row = \<lparr>row_x = 10, row_y = 10, row_z = 10, n_channels = 7 / 2,
                  major_radius_pixels = 14 / 5, minor_radius_pixels = 1, row_pa = 0\<rparr>"

definition huge_row :: catalog_row where
  "huge_row = \<lparr>row_x = 10, row_y = 10, row_z = 10, n_channels = 1,
               major_radius_pixels = 10 ^ 19, minor_radius_pixels = 1, row_pa = 0\<rparr>"

definition deep_row :: catalog_row where
  "deep_row = \<lparr>row_x = 10, row_y = 10, row_z = 10, n_channels = 10 ^ 19,
               major_radius_pixels = 2, minor_radius_pixels = 1, row_pa = 0\<rparr>"
section \<open>Rasterising the catalogue: \<^verbatim>\<open>create_from_df\<close> (utils/segmentmap.py)\<close>

text \<open>
  The index range \<open>[start, stop)\<close> that the slice \<^verbatim>\<open>slice(a, b)\<close> denotes on an axis of
  length \<open>n\<close> (Python's \<^verbatim>\<open>slice.indices\<close>): a negative bound counts from the end, both
  bounds are clipped to \<open>[0, n]\<close>, and the range is empty when \<open>stop \<le> start\<close>.
\<close>

definition py_slice :: "nat \<Rightarrow> int \<times> int \<Rightarrow> nat \<times> nat" where
  "py_slice n s =
     (let clip = (\<lambda>i. (let j = (if i < 0 then i + int n else i)
                        in if j < 0 then 0 else if int n < j then n else nat j));
          start = clip (fst s);
          stop = clip (snd s)
      in (start, max start stop))"

text \<open>
  The sub-array \<^verbatim>\<open>a[s0, s1, s2]\<close> of a three-dimensional array for three slices.
\<close>

definition slice3 :: "'a volume \<Rightarrow> int \<times> int \<Rightarrow> int \<times> int \<Rightarrow> int \<times> int \<Rightarrow> 'a volume" where
  "slice3 a s0 s1 s2 =
     (case vshape a of (d0, d1, d2) \<Rightarrow>
        (let r0 = py_slice d0 s0; r1 = py_slice d1 s1; r2 = py_slice d2 s2
         in \<lparr>vshape = (snd r0 - fst r0, snd r1 - fst r1, snd r2 - fst r2),
             voxel = (\<lambda>(i, j, k). voxel a (fst r0 + i, fst r1 + j, fst r2 + k))\<rparr>))"

text \<open>
  The assignment \<^verbatim>\<open>cube[s0, s1, s2] = value\<close> on the \<^verbatim>\<open>sparse.DOK\<close> array, a library
  call. \<open>in_region\<close> says whether a cell lies in three index ranges. The call is modelled
  as the library does it: every slice is clipped to its axis; the
  cells of the region are visited in order and cell number \<open>t\<close> of the region along an
  axis receives cell number \<open>t\<close> of the value along that axis (its only cell when the
  value has length 1 there), so a value that is longer than the region is cut, and a value
  that is shorter raises IndexError when the first missing cell is asked for. Storing \<open>0\<close>
  removes the key, which is the cell value \<open>0\<close> here. The dictionary of keys is the cell
  function, absent keys being \<open>0\<close>.
\<close>

fun in_region :: "nat \<times> nat \<times> nat \<Rightarrow> (nat \<times> nat) list \<Rightarrow> bool" where
  "in_region (i, j, k) [r0, r1, r2] =
     (fst r0 \<le> i \<and> i < snd r0 \<and> fst r1 \<le> j \<and> j < snd r1 \<and> fst r2 \<le> k \<and> k < snd r2)"
| "in_region v rs = False"

definition slice_ranges ::
  "nat \<times> nat \<times> nat \<Rightarrow> int \<times> int \<Rightarrow> int \<times> int \<Rightarrow> int \<times> int \<Rightarrow> (nat \<times> nat) list" where
  "slice_ranges sh s0 s1 s2 =
     (case sh of (d0, d1, d2) \<Rightarrow> [py_slice d0 s0, py_slice d1 s1, py_slice d2 s2])"

definition value_too_short :: "(nat \<times> nat) list \<Rightarrow> nat \<times> nat \<times> nat \<Rightarrow> bool" where
  "value_too_short rs m =
     (case (rs, m) of
        ([r0, r1, r2], (m0, m1, m2)) \<Rightarrow>
          (let l0 = snd r0 - fst r0; l1 = snd r1 - fst r1; l2 = snd r2 - fst r2;
               short = (\<lambda>l m. m < l \<and> m \<noteq> 1)
           in short l0 m0 \<or> (0 < l0 \<and> short l1 m1) \<or> (0 < l0 \<and> 0 < l1 \<and> short l2 m2))
      | _ \<Rightarrow> False)"

definition value_cell :: "(nat \<times> nat) list \<Rightarrow> real volume \<Rightarrow> nat \<times> nat \<times> nat \<Rightarrow> real" where
  "value_cell rs val v =
     (case (rs, vshape val, v) of
        ([r0, r1, r2], (m0, m1, m2), (i, j, k)) \<Rightarrow>
          (let pick = (\<lambda>m t. if m = 1 then 0 else t)
           in voxel val (pick m0 (i - fst r0), pick m1 (j - fst r1), pick m2 (k - fst r2)))
      | _ \<Rightarrow> 0)"

definition dok_setitem ::
  "real volume \<Rightarrow> int \<times> int \<Rightarrow> int \<times> int \<Rightarrow> int \<times> int \<Rightarrow> real volume \<Rightarrow> error + real volume" where
  "dok_setitem cube s0 s1 s2 val =
     (let rs = slice_ranges (vshape cube) s0 s1 s2
      in if value_too_short rs (vshape val) then Inl IndexError
         else Inr (cube\<lparr>voxel :=
                (\<lambda>v. if in_region v rs then value_cell rs val v else voxel cube v)\<rparr>))"

definition shape_list :: "nat \<times> nat \<times> nat \<Rightarrow> int list" where
  "shape_list sh = (case sh of (d0, d1, d2) \<Rightarrow> [int d0, int d1, int d2])"

text \<open>
  One round of the loop over the rows. \<^verbatim>\<open>config['preprocessing']['min_axis_pixels']\<close> is
  the parameter \<open>min_axis_pixels\<close>. \<^verbatim>\<open>get_spans\<close> returns three spans for three axes.
\<close>

definition insert_row ::
  "(catalog_row \<Rightarrow> nat \<Rightarrow> nat \<times> nat \<Rightarrow> real) \<Rightarrow> real \<Rightarrow> real volume \<Rightarrow> catalog_row \<Rightarrow> error + real volume" where
  "insert_row footprint min_axis_pixels cube row =
     (if 2 * minor_radius_pixels row < min_axis_pixels then Inr cube
      else
        (case dense_cube footprint row of
           Inl e \<Rightarrow> Inl e
         | Inr small_dense_cube \<Rightarrow>
             (case (get_spans (shape_list (vshape cube)) (shape_list (vshape small_dense_cube))
                              [row_x row, row_y row, row_z row],
                    map (\<lambda>s. to_int (real_of_int s / 2)) (shape_list (vshape small_dense_cube))) of
                ([sp0, sp1, sp2], [c0, c1, c2]) \<Rightarrow>
                  dok_setitem cube (dest_range (row_x row) sp0) (dest_range (row_y row) sp1)
                                   (dest_range (row_z row) sp2)
                    (slice3 small_dense_cube (dest_range c0 sp0) (dest_range c1 sp1) (dest_range c2 sp2))
              | _ \<Rightarrow> Inl ValueError)))"

fun insert_rows ::
  "(catalog_row \<Rightarrow> nat \<Rightarrow> nat \<times> nat \<Rightarrow> real) \<Rightarrow> real \<Rightarrow> catalog_row list \<Rightarrow> real volume \<Rightarrow> error + real volume" where
  "insert_rows footprint min_axis_pixels [] cube = Inr cube"
| "insert_rows footprint min_axis_pixels (row # df) cube =
     (case insert_row footprint min_axis_pixels cube row of
        Inl e \<Rightarrow> Inl e
      | Inr cube' \<Rightarrow> insert_rows footprint min_axis_pixels df cube')"

text \<open>
  \<^verbatim>\<open>create_from_df(df, header)\<close>; the header gives the shape
  \<open>(NAXIS1, NAXIS2, NAXIS3)\<close> of the cube. The conversion \<^verbatim>\<open>COO(cube)\<close> keeps shape and
  cells.
\<close>

definition create_from_df ::
  "(catalog_row \<Rightarrow> nat \<Rightarrow> nat \<times> nat \<Rightarrow> real) \<Rightarrow> real \<Rightarrow> nat \<times> nat \<times> nat \<Rightarrow> catalog_row list \<Rightarrow> error + real volume" where
  "create_from_df footprint min_axis_pixels naxis df =
     insert_rows footprint min_axis_pixels df \<lparr>vshape = naxis, voxel = (\<lambda>_. 0)\<rparr>"

text \<open>
  The clipped span of a record's stamp in a cube of shape \<open>naxis\<close>: the three index ranges
  that its slices denote (no range when \<^verbatim>\<open>dense_cube\<close> raises).
\<close>

definition row_region ::
  "(catalog_row \<Rightarrow> nat \<Rightarrow> nat \<times> nat \<Rightarrow> real) \<Rightarrow> nat \<times> nat \<times> nat \<Rightarrow> catalog_row \<Rightarrow> (nat \<times> nat) list" where
  "row_region footprint naxis row =
     (case dense_cube footprint row of
        Inl e \<Rightarrow> []
      | Inr small_dense_cube \<Rightarrow>
          (case get_spans (shape_list naxis) (shape_list (vshape small_dense_cube))
                          [row_x row, row_y row, row_z row] of
             [sp0, sp1, sp2] \<Rightarrow>
               slice_ranges naxis (dest_range (row_x row) sp0) (dest_range (row_y row) sp1)
                                  (dest_range (row_z row) sp2)
           | _ \<Rightarrow> []))"

text \<open>
  The records that are rasterised: those that the threshold test does not skip.
\<close>

definition rasterised :: "real \<Rightarrow> catalog_row \<Rightarrow> bool" where
  "rasterised min_axis_pixels row = (min_axis_pixels \<le> 2 * minor_radius_pixels row)"

text \<open>
  The scenario of the specification: one record at pixel \<open>(10, 10, 10)\<close> with both radii
  1 and one channel.
\<close>

definition unit_row :: catalog_row where
  "unit_row = \<lparr>row_x = 10, row_y = 10, row_z = 10, n_channels = 1,
               major_radius_pixels = 1, minor_radius_pixels = 1, row_pa = 0\<rparr>"

section \<open>The sampling engine: \<^verbatim>\<open>create_data_set\<close> (utils/data.py)\<close>

subsection \<open>Arrays of the data set\<close>

text \<open>
  An array of any rank: its element type, its shape and its cells (the index of a cell is
  the list of its coordinates). The integer arrays hold integral values.
\<close>

datatype dtype = Float64 | Int64

record ndarray =
  dtype :: dtype
  shape :: "nat list"
  cell :: "nat list \<Rightarrow> real"

definition np_zeros :: "dtype \<Rightarrow> nat list \<Rightarrow> ndarray" where
  "np_zeros t sh = \<lparr>dtype = t, shape = sh, cell = (\<lambda>_. 0)\<rparr>"

text \<open>
  The assignment \<^verbatim>\<open>a[n] = val\<close> for a row number \<open>n \<ge> 0\<close>: IndexError when \<open>a\<close> has no
  row \<open>n\<close>, ValueError when the shape of \<^verbatim>\<open>val\<close> cannot be broadcast to the shape of a row
  (aligned at the last axis, every axis of the value has the length of the row's axis or
  length 1).
\<close>

definition broadcastable :: "nat list \<Rightarrow> nat list \<Rightarrow> bool" where
  "broadcastable vs ts =
     (length vs \<le> length ts \<and>
      list_all2 (\<lambda>v t. v = t \<or> v = 1) vs (drop (length ts - length vs) ts))"

definition broadcast_index :: "nat list \<Rightarrow> nat list \<Rightarrow> nat list" where
  "broadcast_index vs idx =
     map2 (\<lambda>v i. if v = 1 then 0 else i) vs (drop (length idx - length vs) idx)"

definition set_item :: "ndarray \<Rightarrow> nat \<Rightarrow> ndarray \<Rightarrow> error + ndarray" where
  "set_item a n val =
     (case shape a of
        [] \<Rightarrow> Inl IndexError
      | d # ts \<Rightarrow>
          if d \<le> n then Inl IndexError
          else if \<not> broadcastable (shape val) ts then Inl ValueError
          else Inr (a\<lparr>cell := (\<lambda>idx. case idx of
                                       [] \<Rightarrow> cell a idx
                                     | i # rest \<Rightarrow> if i = n then cell val (broadcast_index (shape val) rest)
                                                   else cell a idx)\<rparr>))"

text \<open>
  The data set is a dictionary from names to arrays; \<^verbatim>\<open>data[key][n] = val\<close> changes the
  array stored under the key.
\<close>

type_synonym dataset = "string \<Rightarrow> ndarray option"

definition set_data :: "dataset \<Rightarrow> string \<Rightarrow> nat \<Rightarrow> ndarray \<Rightarrow> error + dataset" where
  "set_data d key n val =
     (case d key of
        None \<Rightarrow> Inl KeyError
      | Some a \<Rightarrow> (case set_item a n val of Inl e \<Rightarrow> Inl e | Inr a' \<Rightarrow> Inr (d(key \<mapsto> a'))))"

text \<open>
  Sequencing of steps that can raise, and a loop over a list whose body can raise.
\<close>

definition bind_err :: "error + 'a \<Rightarrow> ('a \<Rightarrow> error + 'b) \<Rightarrow> error + 'b" where
  "bind_err m f = (case m of Inl e \<Rightarrow> Inl e | Inr v \<Rightarrow> f v)"

fun fold_err :: "('a \<Rightarrow> 's \<Rightarrow> error + 's) \<Rightarrow> 'a list \<Rightarrow> 's \<Rightarrow> error + 's" where
  "fold_err f [] s = Inr s"
| "fold_err f (x # xs) s = bind_err (f x s) (fold_err f xs)"

text \<open>
  A three-dimensional array as a value to assign, \<^verbatim>\<open>np.sum(a, axis=0)\<close>, \<^verbatim>\<open>np.sum(a)\<close>, the
  \<open>3 \<times> 2\<close> array \<^verbatim>\<open>np.array([f, x, y])\<close> of three windows, and a scalar.
\<close>

definition of_volume :: "real volume \<Rightarrow> ndarray" where
  "of_volume a =
     (case vshape a of (d0, d1, d2) \<Rightarrow>
        \<lparr>dtype = Float64, shape = [d0, d1, d2],
         cell = (\<lambda>idx. case idx of [i, j, k] \<Rightarrow> voxel a (i, j, k) | _ \<Rightarrow> 0)\<rparr>)"

definition sum_axis0 :: "int volume \<Rightarrow> ndarray" where
  "sum_axis0 a =
     (case vshape a of (d0, d1, d2) \<Rightarrow>
        \<lparr>dtype = Int64, shape = [d1, d2],
         cell = (\<lambda>idx. case idx of
                         [j, k] \<Rightarrow> real_of_int (sum_list (map (\<lambda>i. voxel a (i, j, k)) [0..<d0]))
                       | _ \<Rightarrow> 0)\<rparr>)"

definition sum_all :: "int volume \<Rightarrow> int" where
  "sum_all a = sum_list (map (voxel a) (all_indices (vshape a)))"

definition window_array :: "int \<times> int \<Rightarrow> int \<times> int \<Rightarrow> int \<times> int \<Rightarrow> ndarray" where
  "window_array f x y =
     \<lparr>dtype = Int64, shape = [3, 2],
      cell = (\<lambda>idx. case idx of
                      [r, c] \<Rightarrow> real_of_int ((if c = 0 then fst else snd) ([f, x, y] ! r))
                    | _ \<Rightarrow> 0)\<rparr>"

definition scalar :: "int \<Rightarrow> ndarray" where
  "scalar v = \<lparr>dtype = Int64, shape = [], cell = (\<lambda>_. real_of_int v)\<rparr>"

text \<open>
  Row \<open>j\<close> of an array of windows (\<^verbatim>\<open>x[j]\<close> for \<open>j \<ge> 0\<close>) and entry \<open>i\<close> of a
  one-dimensional integer array (\<^verbatim>\<open>freq_points_f[i]\<close>, where \<open>i\<close> may be negative).
\<close>

definition row_at :: "(int \<times> int) list \<Rightarrow> nat \<Rightarrow> error + int \<times> int" where
  "row_at ws j = (if j < length ws then Inr (ws ! j) else Inl IndexError)"

definition np_get :: "int list \<Rightarrow> int \<Rightarrow> error + int" where
  "np_get xs i = (case np_index (length xs) i of Inl e \<Rightarrow> Inl e | Inr k \<Rightarrow> Inr (xs ! k))"

subsection \<open>Windows inside an interval: \<^verbatim>\<open>random_in_interval\<close>\<close>

text \<open>
  \<^verbatim>\<open>interval\<close> is an array with one row \<open>(lower, upper)\<close> per column of the draws; the
  floating-point lower bounds are truncated when they are stored into the integer array.
\<close>

definition random_in_interval :: "array2 \<Rightarrow> (int \<times> int) list \<Rightarrow> int \<Rightarrow> error + (int \<times> int) list list" where
  "random_in_interval rdn interval len =
     (if length interval < ncol rdn then Inl IndexError
      else Inr (map (\<lambda>i. map (\<lambda>r. (let lo = to_int (r ! i * real_of_int (max (snd (interval ! i) - fst (interval ! i) - len) 0)
                                                     + real_of_int (fst (interval ! i))
                                                     + real_of_int len / 2)
                                    in (lo, lo + len)))
                            (rows rdn))
                    [0..<ncol rdn]))"

subsection \<open>The sizes of the data set\<close>

text \<open>
  The catalogue after the projection by \<^verbatim>\<open>wcs.all_world2pix\<close> (a library call, made
  before anything else): per record the truncated pixel position \<open>(x, y, z)\<close> and the
  truncated pixel bounds \<^verbatim>\<open>upper_band\<close> and \<^verbatim>\<open>lower_band\<close> of its line.
\<close>

record projected_row =
  pix :: "int \<times> int \<times> int"
  upper_band :: int
  lower_band :: int

text \<open>
  The argument \<^verbatim>\<open>freq_points_f\<close>: \<^verbatim>\<open>None\<close>, an \<^verbatim>\<open>int\<close>, or a table.
\<close>

datatype freq_points_arg = NotSupplied | Fixed int | PerBucket "int list"

definition part_sizes :: "projected_row list \<Rightarrow> int \<Rightarrow> int list" where
  "part_sizes df freq_band =
     map (\<lambda>r. to_int (real_of_int (upper_band r - lower_band r) / real_of_int freq_band)) df"

text \<open>
  \<^verbatim>\<open>np.min\<close> and \<^verbatim>\<open>np.max\<close> raise ValueError on an empty array.
\<close>

definition freq_points_table :: "freq_points_arg \<Rightarrow> int list \<Rightarrow> error + int list" where
  "freq_points_table freq_points_f part_size =
     (case freq_points_f of
        NotSupplied \<Rightarrow>
          if part_size = [] then Inl ValueError
          else Inr (map (\<lambda>b. b * 2 + 1) [Min (set part_size)..Max (set part_size)])
      | Fixed c \<Rightarrow>
          if part_size = [] then Inl ValueError
          else Inr (map (\<lambda>one. one * c)
                        (replicate (nat (Max (set part_size) - Min (set part_size) + 1)) 1))
      | PerBucket t \<Rightarrow> Inr t)"

text \<open>
  \<^verbatim>\<open>np.bincount\<close> raises ValueError on a negative entry and counts the values
  \<open>0, \<dots>, max\<close>; the product of two one-dimensional arrays needs equal lengths or one
  array of length 1.
\<close>

definition np_bincount :: "int list \<Rightarrow> error + int list" where
  "np_bincount xs =
     (if list_ex (\<lambda>v. v < 0) xs then Inl ValueError
      else Inr (map (\<lambda>b. int (count_list xs b)) (if xs = [] then [] else [0..Max (set xs)])))"

definition np_mul :: "int list \<Rightarrow> int list \<Rightarrow> error + int list" where
  "np_mul a b =
     (if length a = length b then Inr (map2 (*) a b)
      else if length a = 1 then Inr (map (\<lambda>v. hd a * v) b)
      else if length b = 1 then Inr (map (\<lambda>v. v * hd b) a)
      else Inl ValueError)"

text \<open>
  Lines 17 to 29: the table of frequency windows per partition size and the sizes. A zero
  \<^verbatim>\<open>freq_band\<close> makes every \<^verbatim>\<open>part_size\<close> the cast of an infinity or a NaN, the most
  negative integer, on which \<^verbatim>\<open>np.bincount\<close> raises; an empty catalogue raises in
  \<^verbatim>\<open>np.min\<close>, in the product or in the \<^verbatim>\<open>int\<close> of a NaN. \<^verbatim>\<open>int\<close> of an infinite quotient
  raises OverflowError, of a NaN ValueError.
\<close>

record plan =
  part_size :: "int list"
  freq_points :: "int list"
  n_sources :: int
  freq_empty :: int
  n_points :: int

definition make_plan ::
  "projected_row list \<Rightarrow> real \<Rightarrow> int \<Rightarrow> int \<Rightarrow> freq_points_arg \<Rightarrow> error + plan" where
  "make_plan df prob_galaxy freq_band spatial_points freq_points_f =
     (if freq_band = 0 \<or> df = [] then Inl ValueError
      else
        bind_err (freq_points_table freq_points_f (part_sizes df freq_band)) (\<lambda>table.
        bind_err (np_bincount (part_sizes df freq_band)) (\<lambda>counts.
        bind_err (np_mul counts table) (\<lambda>products.
          (let df_size = int (length df);
               total_freq_p = sum_list products;
               sources = total_freq_p * spatial_points;
               empty = to_int (real_of_int total_freq_p / real_of_int df_size);
               numerator = (1 - prob_galaxy) * real_of_int sources;
               denominator = prob_galaxy * real_of_int empty
           in if denominator = 0 then Inl (if numerator = 0 then ValueError else OverflowError)
              else Inr \<lparr>part_size = part_sizes df freq_band,
                        freq_points = table,
                        n_sources = sources,
                        freq_empty = empty,
                        n_points = sources + to_int (numerator / denominator) * empty\<rparr>)))))"

text \<open>
  Lines 31 to 35: the five arrays. \<^verbatim>\<open>np.zeros\<close> raises ValueError on a negative length;
  \<^verbatim>\<open>np.array\<close> of an empty list is an array of floats.
\<close>

definition allocate :: "plan \<Rightarrow> int \<Rightarrow> int \<Rightarrow> error + dataset" where
  "allocate pl freq_band side_length =
     (if n_points pl < 0 \<or> freq_band < 0 \<or> side_length < 0 then Inl ValueError
      else Inr (Map.empty
        (''image'' \<mapsto> np_zeros Float64 [nat (n_points pl), nat freq_band, nat side_length, nat side_length],
         ''sourcemap'' \<mapsto> np_zeros Int64 [nat (n_points pl), nat side_length, nat side_length],
         ''position'' \<mapsto> np_zeros Int64 [nat (n_points pl), 3, 2],
         ''class'' \<mapsto> \<lparr>dtype = (if n_points pl = 0 then Float64 else Int64), shape = [nat (n_points pl)],
                        cell = (\<lambda>idx. case idx of [i] \<Rightarrow> if int i < n_sources pl then 1 else 0 | _ \<Rightarrow> 0)\<rparr>,
         ''cluster'' \<mapsto> np_zeros Int64 [nat (n_points pl)])))"

subsection \<open>The two loops\<close>

text \<open>
  What the loops carry along: the data set, \<^verbatim>\<open>counter\<close>, \<^verbatim>\<open>cluster\<close>, the \<^verbatim>\<open>Randomizer\<close>
  object and the state of numpy's generator.
\<close>

record gen_state =
  data :: dataset
  count :: nat
  cluster_id :: int
  randomizer :: Randomizer
  generator :: rng

text \<open>
  Lines 52 to 57, the body of the inner loops of a source, for the frequency window
  \<open>f\<close> and the spatial windows \<open>x\<close> and \<open>y\<close>; and lines 72 to 75, the body of the loop of
  an empty cube, which does not write \<^verbatim>\<open>data['sourcemap']\<close>.
\<close>

definition store_source ::
  "real volume \<Rightarrow> int volume \<Rightarrow> int \<Rightarrow> int \<times> int \<Rightarrow> int \<times> int \<Rightarrow> int \<times> int \<Rightarrow>
   dataset \<times> nat \<Rightarrow> error + dataset \<times> nat" where
  "store_source hi_data sourcemap cluster f x y dc =
     (case dc of (d, cnt) \<Rightarrow>
        bind_err (set_data d ''image'' cnt (of_volume (slice3 hi_data f x y))) (\<lambda>d1.
        bind_err (set_data d1 ''sourcemap'' cnt (sum_axis0 (slice3 sourcemap f x y))) (\<lambda>d2.
        bind_err (set_data d2 ''position'' cnt (window_array f x y)) (\<lambda>d3.
        bind_err (set_data d3 ''cluster'' cnt (scalar cluster)) (\<lambda>d4.
          Inr (d4, cnt + 1))))))"

definition store_empty ::
  "real volume \<Rightarrow> int \<Rightarrow> int \<times> int \<Rightarrow> int \<times> int \<Rightarrow> int \<times> int \<Rightarrow>
   dataset \<times> nat \<Rightarrow> error + dataset \<times> nat" where
  "store_empty hi_data cluster f x y dc =
     (case dc of (d, cnt) \<Rightarrow>
        bind_err (set_data d ''image'' cnt (of_volume (slice3 hi_data f x y))) (\<lambda>d1.
        bind_err (set_data d1 ''position'' cnt (window_array f x y)) (\<lambda>d3.
        bind_err (set_data d3 ''cluster'' cnt (scalar cluster)) (\<lambda>d4.
          Inr (d4, cnt + 1)))))"

text \<open>
  Small steps of the loops that can raise: the number of draws asked of a generator (a
  negative number raises ValueError), the unpacking \<^verbatim>\<open>x, y = \<dots>\<close> (which needs exactly
  two arrays), the element \<^verbatim>\<open>[0]\<close> of a list, the location
  \<^verbatim>\<open>(rand.sample(1, 3) * hi_data.shape).astype(np.int)[0]\<close> (which needs three columns and
  a row), and the pair \<^verbatim>\<open>np.min(freq), np.max(freq)\<close> over all cells of an array of
  windows (which raises ValueError on an array without rows).
\<close>

definition draws :: "int \<Rightarrow> error + nat" where
  "draws n = (if n < 0 then Inl ValueError else Inr (nat n))"

definition unpack2 :: "'a list \<Rightarrow> error + 'a \<times> 'a" where
  "unpack2 xs = (case xs of [x, y] \<Rightarrow> Inr (x, y) | _ \<Rightarrow> Inl ValueError)"

definition first :: "'a list \<Rightarrow> error + 'a" where
  "first xs = (case xs of [] \<Rightarrow> Inl IndexError | a # _ \<Rightarrow> Inr a)"

definition coordinate_of :: "array2 \<Rightarrow> nat \<times> nat \<times> nat \<Rightarrow> error + int \<times> int \<times> int" where
  "coordinate_of s sh =
     (case (rows s, sh) of
        ([a0, a1, a2] # _, (d0, d1, d2)) \<Rightarrow>
          Inr (to_int (a0 * real d0), to_int (a1 * real d1), to_int (a2 * real d2))
      | _ \<Rightarrow> Inl ValueError)"

definition min_max :: "(int \<times> int) list \<Rightarrow> error + int \<times> int" where
  "min_max ws =
     (if ws = [] then Inl ValueError
      else Inr (Min (set (map fst ws @ map snd ws)), Max (set (map fst ws @ map snd ws))))"

text \<open>
  Lines 42 to 58, one round of the loop over the sources, for a record and its
  \<^verbatim>\<open>part_size\<close> \<open>b\<close>. The number of frequency windows of the record is
  \<^verbatim>\<open>freq_points_f[part_size[i]]\<close>.
\<close>

definition sample_source ::
  "libs \<Rightarrow> real volume \<Rightarrow> int volume \<Rightarrow> int \<Rightarrow> int \<Rightarrow> int \<Rightarrow> int \<Rightarrow> int list \<Rightarrow>
   projected_row \<times> int \<Rightarrow> gen_state \<Rightarrow> error + gen_state" where
  "sample_source lib hi_data sourcemap side_length precuation freq_band spatial_points table rb st =
     (case (rb, vshape hi_data) of ((row, b), (d0, d1, d2)) \<Rightarrow>
        bind_err (draws spatial_points) (\<lambda>n.
        (let (rdn, g1) = rr_sample lib (randomizer st) n 2 (generator st)
         in
        bind_err (random_center_box rdn side_length [fst (pix row), fst (snd (pix row))]
                    precuation [0, 0] [int d1, int d2]) (\<lambda>xy.
        bind_err (unpack2 xy) (\<lambda>(x, y).
        bind_err (np_get table b) (\<lambda>points.
        bind_err (draws points) (\<lambda>m.
        (let (rdn2, g2) = rr_sample lib (randomizer st) m 1 g1
         in
        bind_err (random_in_interval rdn2 [(lower_band row, upper_band row)] freq_band) (\<lambda>fs.
        bind_err (first fs) (\<lambda>freq.
        bind_err (fold_err
                    (\<lambda>jk dc.
                       bind_err (row_at freq (snd jk)) (\<lambda>fw.
                       bind_err (row_at x (fst jk)) (\<lambda>xw.
                       bind_err (row_at y (fst jk)) (\<lambda>yw.
                         store_source hi_data sourcemap (cluster_id st) fw xw yw dc))))
                    (List.product [0..<n] [0..<m])
                    (data st, count st)) (\<lambda>dc.
          Inr (st\<lparr>data := fst dc, count := snd dc, cluster_id := cluster_id st + 1,
                  generator := g2\<rparr>))))))))))))"

text \<open>
  Lines 62 to 69, the location drawn for an empty cube: the frequency windows \<^verbatim>\<open>freq\<close>
  after the clamp, the pair \<^verbatim>\<open>np.min(freq), np.max(freq)\<close>, and the rows \<^verbatim>\<open>x[0]\<close> and
  \<^verbatim>\<open>y[0]\<close>, together with the number of frequency windows, the \<^verbatim>\<open>Randomizer\<close> object and
  the generator after the two draws.
\<close>

definition empty_candidate ::
  "libs \<Rightarrow> real volume \<Rightarrow> int \<Rightarrow> int \<Rightarrow> int \<Rightarrow> Randomizer \<Rightarrow> rng \<Rightarrow>
   error + (int \<times> int) list \<times> (int \<times> int) \<times> (int \<times> int) \<times> (int \<times> int) \<times> nat \<times> Randomizer \<times> rng" where
  "empty_candidate lib hi_data side_length freq_band f_empty r g =
     (let (s, r1, g1) = sample lib r 1 3 g
      in
     bind_err (coordinate_of s (vshape hi_data)) (\<lambda>coordinate.
     bind_err (draws f_empty) (\<lambda>m.
     (let l_band = fst coordinate;
          u_band = l_band + f_empty * freq_band;
          (rdn, g2) = rr_sample lib r1 m 1 g1
      in
     bind_err (random_in_interval rdn [(l_band, u_band)] freq_band) (\<lambda>fs.
     bind_err (first fs) (\<lambda>freq0.
     bind_err (inside_box [freq0] [0] [int (fst (vshape hi_data))]) (\<lambda>fb.
     bind_err (first fb) (\<lambda>freq.
     bind_err (random_center_box \<lparr>ncol = 2, rows = [[1 / 2, 1 / 2]]\<rparr> side_length
                 [fst (snd coordinate), snd (snd coordinate)] 0 [0, 0]
                 [int (fst (snd (vshape hi_data))), int (snd (snd (vshape hi_data)))]) (\<lambda>xy.
     bind_err (unpack2 xy) (\<lambda>(x, y).
     bind_err (min_max freq) (\<lambda>mm.
     bind_err (row_at x 0) (\<lambda>xw.
     bind_err (row_at y 0) (\<lambda>yw.
       Inr (freq, mm, xw, yw, m, r1, g2))))))))))))))"

text \<open>
  Lines 62 to 76, one round of the loop over the empty cubes: the draw of a location, the
  test that the source map is empty there, and the samples if it is.
\<close>

definition try_empty ::
  "libs \<Rightarrow> real volume \<Rightarrow> int volume \<Rightarrow> int \<Rightarrow> int \<Rightarrow> int \<Rightarrow> gen_state \<Rightarrow> error + gen_state" where
  "try_empty lib hi_data sourcemap side_length freq_band f_empty st =
     bind_err (empty_candidate lib hi_data side_length freq_band f_empty
                 (randomizer st) (generator st)) (\<lambda>(freq, mm, xw, yw, m, r1, g2).
       if sum_all (slice3 sourcemap mm xw yw) = 0
       then bind_err (fold_err
                        (\<lambda>i dc. bind_err (row_at freq i) (\<lambda>fw.
                                   store_empty hi_data (cluster_id st) fw xw yw dc))
                        [0..<m]
                        (data st, count st)) (\<lambda>dc.
              Inr (st\<lparr>data := fst dc, count := snd dc, cluster_id := cluster_id st + 1,
                      randomizer := r1, generator := g2\<rparr>))
       else Inr (st\<lparr>randomizer := r1, generator := g2\<rparr>))"

text \<open>
  The loop \<^verbatim>\<open>while counter < n_points\<close> has no bound on its rounds. It is run with fuel:
  the result is \<open>None\<close> when the loop has not ended within \<open>fuel\<close> rounds.
\<close>

fun empty_loop ::
  "nat \<Rightarrow> libs \<Rightarrow> real volume \<Rightarrow> int volume \<Rightarrow> int \<Rightarrow> int \<Rightarrow> int \<Rightarrow> int \<Rightarrow> gen_state \<Rightarrow>
   (error + gen_state) option" where
  "empty_loop 0 lib hi_data sourcemap side_length freq_band f_empty points st =
     (if int (count st) < points then None else Some (Inr st))"
| "empty_loop (Suc fuel) lib hi_data sourcemap side_length freq_band f_empty points st =
     (if int (count st) < points
      then (case try_empty lib hi_data sourcemap side_length freq_band f_empty st of
              Inl e \<Rightarrow> Some (Inl e)
            | Inr st' \<Rightarrow> empty_loop fuel lib hi_data sourcemap side_length freq_band f_empty points st')
      else Some (Inr st))"

text \<open>
  \<^verbatim>\<open>create_data_set\<close>, from the projected catalogue on. The generator state \<open>g\<close> is the
  state of numpy's generator when the function is called.
\<close>

definition create_data_set ::
  "libs \<Rightarrow> nat \<Rightarrow> projected_row list \<Rightarrow> real volume \<Rightarrow> real \<Rightarrow> int \<Rightarrow> int \<Rightarrow> int \<Rightarrow> int \<Rightarrow>
   freq_points_arg \<Rightarrow> int option \<Rightarrow> rng \<Rightarrow> (error + dataset) option" where
  "create_data_set lib fuel df hi_data prob_galaxy side_length precuation freq_band spatial_points
                   freq_points_f seed_arg g =
     (case create_sourcemap (map pix df) (vshape hi_data) of
        Inl e \<Rightarrow> Some (Inl e)
      | Inr sourcemap \<Rightarrow>
     (case make_plan df prob_galaxy freq_band spatial_points freq_points_f of
        Inl e \<Rightarrow> Some (Inl e)
      | Inr pl \<Rightarrow>
     (case allocate pl freq_band side_length of
        Inl e \<Rightarrow> Some (Inl e)
      | Inr d \<Rightarrow>
     (case fold_err (sample_source lib hi_data sourcemap side_length precuation freq_band
                       spatial_points (freq_points pl))
                    (zip df (part_size pl))
                    \<lparr>data = d, count = 0, cluster_id = 0,
                     randomizer = Randomizer_init seed_arg, generator = g\<rparr> of
        Inl e \<Rightarrow> Some (Inl e)
      | Inr st \<Rightarrow>
     (case empty_loop fuel lib hi_data sourcemap side_length freq_band (freq_empty pl) (n_points pl) st of
        None \<Rightarrow> None
      | Some (Inl e) \<Rightarrow> Some (Inl e)
      | Some (Inr st') \<Rightarrow> Some (Inr (data st')))))))"

text \<open>
  A small cube and catalogues to run the model on: a cube of shape \<open>(4, 4, 4)\<close> and one
  record at pixel \<open>(1, 1, 1)\<close> whose line spans no whole partition, or two records whose
  lines span two partitions.
\<close>

definition example_cube :: "real volume" where
  "example_cube = \<lparr>vshape = (4, 4, 4), voxel = (\<lambda>(i, j, k). real (i + j + k))\<rparr>"


definition wide_df :: "projected_row list" where
  "wide_df = [\<lparr>pix = (1, 1, 1), upper_band = 3, lower_band = 1\<rparr>,
              \<lparr>pix = (2, 2, 2), upper_band = 3, lower_band = 1\<rparr>]"










section \<open>Properties of the boundary clamp\<close>

lemma move_rows_length [simp]: "length (move_rows js w ws) = length ws"
  unfolding move_rows_def by (induction js arbitrary: ws) auto

lemma move_rows_nth:
  "k < length ws \<Longrightarrow> move_rows js w ws ! k = (if k \<in> set js then w else ws ! k)"
  unfolding move_rows_def
  by (induction js arbitrary: ws) (auto simp: nth_list_update)

lemma set_where_rows:
  "set (where_rows P ws) = {j. j < length ws \<and> (P (fst (ws ! j)) \<or> P (snd (ws ! j)))}"
  unfolding where_rows_def by auto

lemma move_where_rows:
  "move_rows (where_rows P ws) w ws = map (\<lambda>r. if P (fst r) \<or> P (snd r) then w else r) ws"
  by (rule nth_equalityI) (auto simp: move_rows_nth set_where_rows)

lemma where_rows_empty:
  "(where_rows P ws = []) = (\<not> (\<exists>r \<in> set ws. P (fst r) \<or> P (snd r)))"
proof -
  have "(where_rows P ws = []) = (set (where_rows P ws) = {})" by auto
  also have "\<dots> = (\<not> (\<exists>j<length ws. P (fst (ws ! j)) \<or> P (snd (ws ! j))))"
    unfolding set_where_rows by auto
  also have "\<dots> = (\<not> (\<exists>r \<in> set ws. P (fst r) \<or> P (snd r)))"
    by (metis in_set_conv_nth)
  finally show ?thesis .
qed

lemma clamp_step:
  assumes "\<forall>w\<in>set ws. snd w - fst w = L"
  shows "(if length (where_rows P ws) > 0
          then (let total_length = snd (ws ! 0) - fst (ws ! 0)
                in move_rows (where_rows P ws) (g total_length) ws)
          else ws)
         = map (\<lambda>r. if P (fst r) \<or> P (snd r) then g L else r) ws"
proof (cases "\<exists>r\<in>set ws. P (fst r) \<or> P (snd r)")
  case True
  then have "ws \<noteq> []" by auto
  then have "ws ! 0 \<in> set ws" by simp
  with assms have "snd (ws ! 0) - fst (ws ! 0) = L" by blast
  with True show ?thesis by (simp add: where_rows_empty move_where_rows)
next
  case False
  then have "map (\<lambda>r. if P (fst r) \<or> P (snd r) then g L else r) ws = ws"
    by (intro map_idI) auto
  with False show ?thesis by (simp add: where_rows_empty)
qed

lemma clamp_axis_uniform:
  assumes "\<forall>w\<in>set ws. snd w - fst w = L"
  shows "clamp_axis mn mx ws = map (clamp_window mn mx L) ws"
proof -
  let ?f1 = "\<lambda>r. if fst r < mn \<or> snd r < mn then (mn, mn + L) else r"
  let ?ws1 = "map ?f1 ws"
  have 1: "(if length (where_rows (\<lambda>v. v < mn) ws) > 0
          then (let total_length = snd (ws ! 0) - fst (ws ! 0)
                in move_rows (where_rows (\<lambda>v. v < mn) ws) (mn, mn + total_length) ws)
          else ws) = ?ws1"
    using clamp_step [OF assms, of "\<lambda>v. v < mn" "\<lambda>t. (mn, mn + t)"] .
  have u1: "\<forall>w\<in>set ?ws1. snd w - fst w = L" using assms by auto
  have 2: "(if length (where_rows (\<lambda>v. v \<ge> mx) ?ws1) > 0
          then (let total_length = snd (?ws1 ! 0) - fst (?ws1 ! 0)
                in move_rows (where_rows (\<lambda>v. v \<ge> mx) ?ws1) (mx - total_length - 1, mx - 1) ?ws1)
          else ?ws1) = map (\<lambda>r. if fst r \<ge> mx \<or> snd r \<ge> mx then (mx - L - 1, mx - 1) else r) ?ws1"
    using clamp_step [OF u1, of "\<lambda>v. v \<ge> mx" "\<lambda>t. (mx - t - 1, mx - 1)"] .
  have "clamp_axis mn mx ws = map (\<lambda>r. if fst r \<ge> mx \<or> snd r \<ge> mx then (mx - L - 1, mx - 1) else r) ?ws1"
    unfolding clamp_axis_def Let_def using 1 2 by (simp only: Let_def)
  also have "\<dots> = map (clamp_window mn mx L) ws"
    by (simp add: clamp_window_def Let_def comp_def)
  finally show ?thesis .
qed

lemma clamp_window_ok:
  assumes "snd w - fst w = L" "0 \<le> L" "L < mx - mn"
  shows "window_ok mn mx w (clamp_window mn mx L w)"
  using assms unfolding window_ok_def clamp_window_def Let_def by auto

subsection \<open>Claim C3: lengths and bounds after \<^verbatim>\<open>inside_box\<close>\<close>

text \<open>
  As stated, for every list of windows and bounds, C3 does not hold. The length that a
  moved window receives is the length of the first window of its axis, so a window of
  another length changes its length; and a window that is not shorter than
  \<open>max - min\<close> cannot lie in \<open>[min, max)\<close>: moved up to the minimum it is moved down
  again, below the minimum.
\<close>

theorem inside_box_counterexample:
  "inside_box [[(5, 10), (-1, 1)]] [0] [100] = Inr [[(5, 10), (0, 5)]] \<and>
   \<not> window_ok 0 100 (-1, 1) (0, 5) \<and>
   inside_box [[(-1, 4)]] [0] [5] = Inr [[(-1, 4)]] \<and>
   \<not> window_ok 0 5 (-1, 4) (-1, 4)"
proof -
  have "inside_box [[(5, 10), (-1, 1)]] [0] [100] = Inr [[(5, 10), (0, 5)]]" by code_simp
  moreover have "inside_box [[(-1, 4)]] [0] [5] = Inr [[(-1, 4)]]" by code_simp
  ultimately show ?thesis by (simp add: window_ok_def)
qed

text \<open>
  Claim C3, amended: when on every axis all windows have one common length \<open>L\<close> with
  \<open>0 \<le> L < max - min\<close> (and a minimum and a maximum are given for every axis),
  \<^verbatim>\<open>inside_box\<close> returns, for every axis, as many windows as it was given, every output
  window has the length of the corresponding input window, and both its bounds lie in
  the half-open range \<open>[min, max)\<close> of the axis.
\<close>

theorem inside_box_ok:
  assumes "length mins = length points" "length maxs = length points"
    and "\<forall>i<length points. \<exists>L. 0 \<le> L \<and> L < maxs ! i - mins ! i \<and> (\<forall>w\<in>set (points ! i). snd w - fst w = L)"
  shows "\<exists>out. inside_box points mins maxs = Inr out \<and> length out = length points \<and>
           (\<forall>i<length points. length (out ! i) = length (points ! i) \<and>
              (\<forall>j<length (points ! i). window_ok (mins ! i) (maxs ! i) (points ! i ! j) (out ! i ! j)))"
  using assms
proof (induction points mins maxs rule: inside_box.induct)
  case (4 p ps mn mins mx maxs)
  have "\<forall>i<length ps. \<exists>L. 0 \<le> L \<and> L < maxs ! i - mins ! i \<and> (\<forall>w\<in>set (ps ! i). snd w - fst w = L)"
  proof (intro allI impI)
    fix i assume "i < length ps"
    then have "Suc i < length (p # ps)" by simp
    from 4(4)[rule_format, OF this] show "\<exists>L. 0 \<le> L \<and> L < maxs ! i - mins ! i \<and> (\<forall>w\<in>set (ps ! i). snd w - fst w = L)"
      by simp
  qed
  with 4 obtain r where r: "inside_box ps mins maxs = Inr r" "length r = length ps"
    "\<forall>i<length ps. length (r ! i) = length (ps ! i) \<and>
              (\<forall>j<length (ps ! i). window_ok (mins ! i) (maxs ! i) (ps ! i ! j) (r ! i ! j))"
    by auto
  from 4(4)[rule_format, of 0] obtain L where L: "0 \<le> L" "L < mx - mn" "\<forall>w\<in>set p. snd w - fst w = L"
    by auto
  have c: "clamp_axis mn mx p = map (clamp_window mn mx L) p"
    by (rule clamp_axis_uniform [OF L(3)])
  have head: "length (clamp_axis mn mx p) = length p \<and>
      (\<forall>j<length p. window_ok mn mx (p ! j) (clamp_axis mn mx p ! j))"
    using L by (auto simp: c intro!: clamp_window_ok)
  show ?case
  proof (intro exI conjI allI impI)
    show "inside_box (p # ps) (mn # mins) (mx # maxs) = Inr (clamp_axis mn mx p # r)"
      by (simp add: r)
    show "length (clamp_axis mn mx p # r) = length (p # ps)" by (simp add: r)
  next
    fix i assume "i < length (p # ps)"
    then show "length ((clamp_axis mn mx p # r) ! i) = length ((p # ps) ! i)"
      using head r by (cases i) auto
  next
    fix i j assume "i < length (p # ps)" "j < length ((p # ps) ! i)"
    then show "window_ok ((mn # mins) ! i) ((mx # maxs) ! i) ((p # ps) ! i ! j) ((clamp_axis mn mx p # r) ! i ! j)"
      using head r by (cases i) auto
  qed
qed auto

theorem inside_box_ok_witness:
  "inside_box [[(-3, 2), (8, 13)], [(1, 4)]] [0, 0] [10, 10] = Inr [[(0, 5), (4, 9)], [(1, 4)]] \<and>
   window_ok 0 10 (-3, 2) (0, 5) \<and> window_ok 0 10 (8, 13) (4, 9) \<and> window_ok 0 10 (1, 4) (1, 4)"
proof -
  let ?I = "[[(-3, 2), (8, 13)], [(1, 4)]] :: (int \<times> int) list list"
  have h3: "\<forall>i<length ?I. \<exists>L. 0 \<le> L \<and> L < [10, 10] ! i - [0, 0] ! i \<and> (\<forall>w\<in>set (?I ! i). snd w - fst w = L)"
    by (auto simp: less_Suc_eq nth_Cons')
  from inside_box_ok [of "[0, 0]" ?I "[10, 10]", OF _ _ h3]
  obtain out where out: "inside_box ?I [0, 0] [10, 10] = Inr out"
    "\<forall>i<length ?I. length (out ! i) = length (?I ! i) \<and>
              (\<forall>j<length (?I ! i). window_ok ([0, 0] ! i) ([10, 10] ! i) (?I ! i ! j) (out ! i ! j))"
    by auto
  have ev: "inside_box ?I [0, 0] [10, 10] = Inr [[(0, 5), (4, 9)], [(1, 4)]]"
    by code_simp
  with out(1) have o: "out = [[(0, 5), (4, 9)], [(1, 4)]]" by simp
  from out(2)[rule_format, of 0] have "window_ok 0 10 (-3, 2) (out ! 0 ! 0)" "window_ok 0 10 (8, 13) (out ! 0 ! 1)"
    by auto
  moreover from out(2)[rule_format, of 1] have "window_ok 0 10 (1, 4) (out ! 1 ! 0)" by auto
  ultimately show ?thesis using ev by (simp add: o)
qed

subsection \<open>Claim C9: \<^verbatim>\<open>random_center_box\<close> at the cube edge\<close>

lemma to_int_nonneg_half: "0 \<le> t \<Longrightarrow> to_int (real_of_int t / 2) = t div 2"
proof -
  assume t: "0 \<le> t"
  have "\<lfloor>real_of_int t / real_of_int 2\<rfloor> = t div 2" by (rule floor_divide_of_int_eq)
  then have "\<lfloor>real_of_int t / 2\<rfloor> = t div 2" by simp
  with t show ?thesis by (simp add: to_int_def)
qed

lemma to_int_between:
  assumes "real_of_int a \<le> x" "x \<le> real_of_int b"
  shows "a \<le> to_int x \<and> to_int x \<le> b"
proof -
  have 1: "a \<le> \<lfloor>x\<rfloor>" using assms(1) by (simp add: le_floor_iff)
  have 2: "\<lfloor>x\<rfloor> \<le> \<lceil>x\<rceil>" by (rule floor_le_ceiling)
  have 3: "\<lceil>x\<rceil> \<le> b" using assms(2) by (simp add: ceiling_le_iff)
  show ?thesis
  proof (cases "0 \<le> x")
    case True
    then have "to_int x = \<lfloor>x\<rfloor>" by (simp add: to_int_def)
    with 1 2 3 show ?thesis by linarith
  next
    case False
    then have "to_int x = \<lceil>x\<rceil>" by (simp add: to_int_def)
    with 1 2 3 show ?thesis by linarith
  qed
qed

lemma draw_range:
  fixes v :: real and h :: int
  assumes "0 \<le> v" "v < 1" "0 \<le> h"
  shows "real_of_int (- (2 * h)) \<le> v * 2 * real_of_int h - real_of_int h - real_of_int h"
    and "v * 2 * real_of_int h - real_of_int h - real_of_int h \<le> real_of_int 0"
proof -
  have a: "0 \<le> v * real_of_int h" using assms by simp
  have "v * real_of_int h \<le> 1 * real_of_int h"
    using assms by (intro mult_right_mono) auto
  then have b: "v * real_of_int h \<le> real_of_int h" by simp
  show "real_of_int (- (2 * h)) \<le> v * 2 * real_of_int h - real_of_int h - real_of_int h"
    using a by simp
  show "v * 2 * real_of_int h - real_of_int h - real_of_int h \<le> real_of_int 0"
    using b by simp
qed

lemma edge_window:
  assumes "0 \<le> v" "v < 1" "0 \<le> t" "t < mx"
  defines "h \<equiv> to_int (real_of_int t / 2)"
  defines "lo \<equiv> to_int (v * 2 * real_of_int (h - 0) + real_of_int 0 - real_of_int h - real_of_int (h - 0))"
  shows "clamp_window 0 mx t (lo, lo + t) = (0, t)"
proof -
  have h: "h = t div 2" unfolding h_def using assms(3) by (rule to_int_nonneg_half)
  have h0: "0 \<le> h" unfolding h using assms(3) by simp
  have lo: "lo = to_int (v * 2 * real_of_int h - real_of_int h - real_of_int h)"
    unfolding lo_def by simp
  have "- (2 * h) \<le> lo \<and> lo \<le> 0"
    unfolding lo by (rule to_int_between) (rule draw_range [OF assms(1,2) h0])+
  moreover have "2 * h \<le> t" unfolding h by simp
  ultimately have "lo \<le> 0" "0 \<le> lo + t" by linarith+
  with assms(3,4) show ?thesis
    unfolding clamp_window_def Let_def by auto
qed

text \<open>
  As stated, for every nonnegative axis bound, C9 does not hold: when the window is not
  shorter than the axis (\<open>total_length \<ge> max\<close>), the clamp against the maximum moves
  the window down again and its lower bound is negative.
\<close>

theorem random_center_box_edge_counterexample:
  "random_center_box \<lparr>ncol = 2, rows = [[0, 0]]\<rparr> 4 [0, 0] 0 [0, 0] [3, 3]
     = Inr [[(- 2, 2)], [(- 2, 2)]]"
  by code_simp

text \<open>
  Claim C9, amended: for draws in \<open>[0, 1)\<close> (a well-formed array with two columns), a
  length \<open>total_length \<ge> 0\<close> that is smaller than the maximum of both axes, centre
  point \<open>(0, 0)\<close>, precaution \<open>0\<close> and minimum bounds \<open>[0, 0]\<close>, \<^verbatim>\<open>random_center_box\<close>
  returns on both axes, for every draw, the window \<open>(0, total_length)\<close>: its lower bound
  is exactly \<open>0\<close> and its length is \<open>total_length\<close>.
\<close>

theorem random_center_box_edge:
  assumes wf: "wf_array2 rdn" and dim: "ncol rdn = 2"
    and draws: "\<forall>r\<in>set (rows rdn). \<forall>v\<in>set r. 0 \<le> v \<and> v < 1"
    and t: "0 \<le> total_length" "total_length < mx" "total_length < my"
  shows "random_center_box rdn total_length [0, 0] 0 [0, 0] [mx, my]
         = Inr [replicate (length (rows rdn)) (0, total_length),
                replicate (length (rows rdn)) (0, total_length)]"
proof -
  define h where "h = to_int (real_of_int total_length / 2)"
  define win where "win = (\<lambda>i (r :: real list).
     (let lo = to_int (r ! i * 2 * real_of_int (h - 0) + real_of_int ([0, 0] ! i) - real_of_int h - real_of_int (h - 0))
      in (lo, lo + total_length)))"
  have len: "\<And>r. r \<in> set (rows rdn) \<Longrightarrow> length r = 2"
    using wf dim by (simp add: wf_array2_def list_all_iff)
  have uni: "\<And>i. \<forall>w\<in>set (map (win i) (rows rdn)). snd w - fst w = total_length"
    by (simp add: win_def Let_def)
  have cl: "clamp_axis 0 m (map (win i) (rows rdn)) = replicate (length (rows rdn)) (0, total_length)"
    if i: "i < 2" and m: "total_length < m" for i m
  proof -
    have "map (clamp_window 0 m total_length) (map (win i) (rows rdn))
          = map (\<lambda>r. (0, total_length)) (rows rdn)"
    proof (simp only: map_map comp_def, rule map_cong [OF refl])
      fix r assume r: "r \<in> set (rows rdn)"
      with len i have "r ! i \<in> set r" by simp
      with draws r have v: "0 \<le> r ! i" "r ! i < 1" by auto
      have z: "[0, 0] ! i = (0::int)" using i by (cases i) auto
      show "clamp_window 0 m total_length (win i r) = (0, total_length)"
        using edge_window [OF v t(1) m] unfolding win_def h_def z Let_def by simp
    qed
    then show ?thesis
      by (simp add: clamp_axis_uniform [OF uni] map_replicate_const)
  qed
  have "random_center_box rdn total_length [0, 0] 0 [0, 0] [mx, my]
        = inside_box [map (win 0) (rows rdn), map (win 1) (rows rdn)] [0, 0] [mx, my]"
    unfolding random_center_box_def Let_def win_def h_def dim
    by (simp add: upt_conv_Cons numeral_2_eq_2)
  also have "\<dots> = Inr [clamp_axis 0 mx (map (win 0) (rows rdn)), clamp_axis 0 my (map (win 1) (rows rdn))]"
    by simp
  finally show ?thesis using cl [of 0 mx] cl [of 1 my] t by simp
qed

theorem random_center_box_edge_witness:
  "random_center_box \<lparr>ncol = 2, rows = [[0, 1/2], [9/10, 3/10]]\<rparr> 5 [0, 0] 0 [0, 0] [30, 20]
     = Inr [[(0, 5), (0, 5)], [(0, 5), (0, 5)]]"
  using random_center_box_edge [of "\<lparr>ncol = 2, rows = [[0, 1/2], [9/10, 3/10]]\<rparr>" 5 30 20]
  by (simp add: wf_array2_def)

section \<open>Properties of the sampling sequence\<close>

subsection \<open>Claim C1: reproducibility of \<^verbatim>\<open>sample\<close>\<close>

text \<open>
  In quasi-random mode the results of a sequence of \<^verbatim>\<open>sample\<close> calls depend on the
  counter at the start only: not on the generator, not on the process.
\<close>

lemma sample_quasi:
  "seed r = None \<Longrightarrow> fst (sample lib r n d g) = i4_sobol_generate lib d n (counter r)"
  by (simp add: sample_def rand_def)

lemma sample_seq_quasi_deterministic:
  "seed r1 = None \<Longrightarrow> seed r2 = None \<Longrightarrow> counter r1 = counter r2 \<Longrightarrow>
   sample_seq lib nds (r1, g1) = sample_seq lib nds (r2, g2)"
proof (induction nds arbitrary: r1 r2 g1 g2)
  case Nil
  then show ?case by simp
next
  case (Cons nd nds)
  obtain n d where nd: "nd = (n, d)" by (cases nd)
  have "sample_seq lib nds (r1\<lparr>counter := counter r1 + n\<rparr>, g1)
        = sample_seq lib nds (r2\<lparr>counter := counter r2 + n\<rparr>, g2)"
    using Cons.prems by (intro Cons.IH) auto
  with Cons.prems show ?case by (simp add: nd sample_def rand_def)
qed

lemma sample_seq_seeded_ignores_seed:
  "sample_seq lib nds (\<lparr>seed = Some x, counter = c\<rparr>, g)
   = sample_seq lib nds (\<lparr>seed = Some y, counter = c'\<rparr>, g)"
proof (induction nds arbitrary: c c' g)
  case Nil
  then show ?case by simp
next
  case (Cons nd nds)
  obtain n d where nd: "nd = (n, d)" by (cases nd)
  show ?case by (simp add: nd sample_def rand_def Cons.IH [of "c + n" _  "c' + n"] split: prod.splits)
qed

lemma sample_seq_seeded_after_reset:
  assumes "reset lib (Randomizer_init (Some x)) g1 = Inr st1"
    and "reset lib (Randomizer_init (Some x)) g2 = Inr st2"
  shows "sample_seq lib nds st1 = sample_seq lib nds st2"
proof -
  from assms have "st1 = st2"
    by (auto simp: reset_def reset_f_def Randomizer_init_def split: if_splits)
  then show ?thesis by simp
qed

text \<open>
  Claim C1 says that two \<^verbatim>\<open>Randomizer\<close> objects constructed with the same seed produce
  identical sequences of \<^verbatim>\<open>sample(n, d)\<close> results across independent runs (and that the
  quasi-random mode reproduces its points, which \<open>sample_seq_quasi_deterministic\<close>
  shows). In seeded mode the code does not do so: \<^verbatim>\<open>__init__\<close> stores the seed and never
  passes it to the generator (only \<^verbatim>\<open>reset\<close> does, \<open>sample_seq_seeded_after_reset\<close>), so
  the draws are those of the generator as the process started it, whatever the seed
  (\<open>sample_seq_seeded_ignores_seed\<close>). Two runs with seed 42 whose generators start in
  different states return different sequences.
\<close>

theorem sample_seeded_runs_differ:
  "sample_seq example_libs [(1, 1), (1, 1)] (Randomizer_init (Some 42), example_rng_a)
     = [\<lparr>ncol = 1, rows = [[1/2]]\<rparr>, \<lparr>ncol = 1, rows = [[1/3]]\<rparr>] \<and>
   sample_seq example_libs [(1, 1), (1, 1)] (Randomizer_init (Some 42), example_rng_b)
     = [\<lparr>ncol = 1, rows = [[1/5]]\<rparr>, \<lparr>ncol = 1, rows = [[1/6]]\<rparr>]"
  by code_simp

subsection \<open>Claim C2: \<^verbatim>\<open>rr_sample\<close> as a restart\<close>

lemma do_call_seed:
  "do_call lib c (r, g) = Inr (r', g') \<Longrightarrow> seed r' = seed r"
  by (cases c) (auto simp: sample_def rr_sample_def reset_sample_def reset_def reset_f_def Let_def
      split: prod.splits sum.splits option.splits if_splits)

lemma do_call_quasi_total:
  "seed r = None \<Longrightarrow> \<exists>r' g'. do_call lib c (r, g) = Inr (r', g')"
  by (cases c) (auto simp: sample_def rr_sample_def reset_sample_def reset_def reset_f_def rand_def Let_def
      split: prod.splits sum.splits option.splits if_splits)

lemma do_calls_quasi:
  "seed r = None \<Longrightarrow> \<exists>r' g'. do_calls lib cs (r, g) = Inr (r', g') \<and> seed r' = None"
proof (induction cs arbitrary: r g)
  case Nil
  then show ?case by simp
next
  case (Cons c cs)
  from do_call_quasi_total [OF Cons.prems] obtain r1 g1 where 1: "do_call lib c (r, g) = Inr (r1, g1)"
    by blast
  with Cons.prems have "seed r1 = None" by (simp add: do_call_seed)
  from Cons.IH [OF this] 1 show ?case by simp
qed

lemma rr_sample_quasi:
  "seed r = None \<Longrightarrow> fst (rr_sample lib r n d g) = i4_sobol_generate lib d n 0"
  by (simp add: rr_sample_def rand_def)

text \<open>
  As stated, for both modes, C2 does not hold. In seeded mode \<^verbatim>\<open>rr_sample\<close> returns the
  next draws of the generator (the source says so: ``Reset sampling for Sobol and Random
  for Uniform''), so an earlier \<^verbatim>\<open>sample\<close> call changes what it returns.
\<close>

theorem rr_sample_restart_counterexample:
  "rr_after example_libs [Sample 1 1] (Randomizer_init (Some 42), example_rng_a) 1 1
     \<noteq> rr_after example_libs [] (Randomizer_init (Some 42), example_rng_a) 1 1"
  by code_simp

text \<open>
  Claim C2, amended: for every \<^verbatim>\<open>Randomizer\<close> in quasi-random mode (no seed) and every
  \<open>n\<close> and \<open>d\<close>, \<^verbatim>\<open>rr_sample(n, d)\<close> returns the same block after any history of calls
  (\<^verbatim>\<open>sample\<close>, \<^verbatim>\<open>rr_sample\<close>, \<^verbatim>\<open>reset_sample\<close>, \<^verbatim>\<open>reset\<close>) as before it, whatever the
  counter and the generator are: the points of the sequence from index 0 on.
\<close>

theorem rr_sample_restart_quasi:
  assumes "seed r = None"
  shows "rr_after lib cs (r, g) n d = rr_after lib [] (r, g) n d \<and>
         rr_after lib cs (r, g) n d = Inr (i4_sobol_generate lib d n 0)"
proof -
  from do_calls_quasi [OF assms] obtain r' g' where
    "do_calls lib cs (r, g) = Inr (r', g')" "seed r' = None" by blast
  then show ?thesis using assms by (simp add: rr_after_def rr_sample_quasi)
qed

theorem rr_sample_restart_quasi_witness:
  "rr_after example_libs [Sample 3 2, RrSample 1 1, Reset] (Randomizer_init None, example_rng_a) 2 2
     = Inr \<lparr>ncol = 2, rows = [[1/2, 1/2], [1/3, 1/3]]\<rparr>"
proof -
  have "seed (Randomizer_init None) = None" by (simp add: Randomizer_init_def)
  from rr_sample_restart_quasi [OF this, of example_libs "[Sample 3 2, RrSample 1 1, Reset]" example_rng_a 2 2]
  have "rr_after example_libs [Sample 3 2, RrSample 1 1, Reset] (Randomizer_init None, example_rng_a) 2 2
          = Inr (i4_sobol_generate example_libs 2 2 0)" by (rule conjunct2)
  also have "i4_sobol_generate example_libs 2 2 0 = \<lparr>ncol = 2, rows = [[1/2, 1/2], [1/3, 1/3]]\<rparr>"
    by code_simp
  finally show ?thesis .
qed

section \<open>Properties of \<^verbatim>\<open>get_spans\<close>\<close>

text \<open>
  For a coordinate inside the axis the two spans are the smaller of the half-extent of
  the stamp and the distance \<open>p\<close> to the lower edge, \<open>full_length - p\<close> to the upper edge
  (plus one for the upper span, an exclusive bound). The range written starts at \<open>0\<close> or
  above, but it ends one past the axis exactly when \<open>p + half \<ge> full_length\<close>.
\<close>

lemma span_inside:
  assumes "0 \<le> p" "p < full_length" "0 \<le> small_length"
  shows "fst (span p full_length small_length) = min (small_length div 2) p"
    and "snd (span p full_length small_length) = min (small_length div 2) (full_length - p) + 1"
    and "0 \<le> fst (dest_range p (span p full_length small_length))"
    and "snd (dest_range p (span p full_length small_length)) \<le> full_length + 1"
    and "(snd (dest_range p (span p full_length small_length)) = full_length + 1)
           = (full_length \<le> p + small_length div 2)"
  using assms
  by (auto simp: span_def dest_range_def Let_def to_int_nonneg_half)

text \<open>
  Claim C5 says that the spans of \<^verbatim>\<open>get_spans\<close> are such that the range
  \<open>[center - lower_span, center + upper_span)\<close> written into the volume lies entirely
  within the cube. The code misses it by one at the upper edge: the test is
  \<^verbatim>\<open>p + half > full_length\<close> and the clipped span \<^verbatim>\<open>full_length - p\<close>, where the last
  index of the axis is \<open>full_length - 1\<close>. For a cube of shape \<open>(10, 10, 10)\<close>, a stamp of
  shape \<open>(3, 3, 3)\<close> and a record at \<open>(9, 9, 9)\<close> the range on every axis is \<open>[8, 11)\<close>.
\<close>

theorem get_spans_upper_edge:
  "get_spans [10, 10, 10] [3, 3, 3] [9, 9, 9] = [(1, 2), (1, 2), (1, 2)] \<and>
   dest_range 9 (span 9 10 3) = (8, 11) \<and>
   \<not> range_in_axis 10 (dest_range 9 (span 9 10 3))"
  by code_simp

section \<open>Properties of \<^verbatim>\<open>create_sourcemap\<close>\<close>

lemma np_index_inside: "0 \<le> i \<Longrightarrow> i < int n \<Longrightarrow> np_index n i = Inr (nat i)"
  by (simp add: np_index_def)

lemma mark_positions_inside:
  assumes "list_all (in_cube (vshape a)) ps"
  shows "mark_positions ps a =
         Inr \<lparr>vshape = vshape a,
              voxel = (\<lambda>(i, j, k). if (int j, int k, int i) \<in> set ps then 1 else voxel a (i, j, k))\<rparr>"
  using assms
proof (induction ps arbitrary: a)
  case Nil
  then show ?case by simp
next
  case (Cons pos ps)
  obtain p0 p1 p2 where pos: "pos = (p0, p1, p2)" by (cases pos)
  obtain d0 d1 d2 where sh: "vshape a = (d0, d1, d2)" by (cases "vshape a")
  from Cons.prems have "in_cube (d0, d1, d2) (p0, p1, p2)"
    and rest: "list_all (in_cube (vshape a)) ps"
    by (simp_all add: pos sh)
  then have ins: "0 \<le> p2" "p2 < int d0" "0 \<le> p0" "p0 < int d1" "0 \<le> p1" "p1 < int d2"
    by (simp_all add: in_cube_def)
  let ?a' = "a\<lparr>voxel := (voxel a)((nat p2, nat p0, nat p1) := 1)\<rparr>"
  have sv: "set_voxel a (p2, p0, p1) 1 = Inr ?a'"
    using ins by (simp add: set_voxel_def sh np_index_inside)
  have "list_all (in_cube (vshape ?a')) ps" using rest by simp
  from Cons.IH [OF this]
  have "mark_positions (pos # ps) a =
        Inr \<lparr>vshape = vshape a,
             voxel = (\<lambda>(i, j, k). if (int j, int k, int i) \<in> set ps then 1 else voxel ?a' (i, j, k))\<rparr>"
    by (simp add: pos sv)
  moreover have "(\<lambda>(i, j, k). if (int j, int k, int i) \<in> set ps then 1 else voxel ?a' (i, j, k))
        = (\<lambda>(i, j, k). if (int j, int k, int i) \<in> set (pos # ps) then 1 else voxel a (i, j, k))"
    using ins by (auto simp: pos fun_eq_iff)
  ultimately show ?case by simp
qed

lemma distinct_all_indices: "distinct (all_indices sh)"
  by (cases sh) (auto simp: all_indices_def intro!: distinct_product)

lemma count_marked:
  assumes "\<And>i j k. voxel a (i, j, k) \<noteq> 0 \<Longrightarrow> (int j, int k, int i) \<in> set ps"
  shows "count_nonzero a \<le> length ps"
proof -
  let ?nz = "filter (\<lambda>v. voxel a v \<noteq> 0) (all_indices (vshape a))"
  let ?f = "\<lambda>(i, j, k). (int j, int k, int i)"
  have d: "distinct ?nz" by (simp add: distinct_all_indices)
  have inj: "inj_on ?f (set ?nz)" by (auto simp: inj_on_def)
  have sub: "?f ` set ?nz \<subseteq> set ps" using assms by auto
  have "length ?nz = card (set ?nz)" using distinct_card [OF d] by presburger
  also have "\<dots> = card (?f ` set ?nz)" using inj by (simp add: card_image)
  also have "\<dots> \<le> card (set ps)" using sub by (intro card_mono) auto
  also have "\<dots> \<le> length ps" by (rule card_length)
  finally show ?thesis by (simp add: count_nonzero_def)
qed

subsection \<open>Claim C10: the source map marks single centre voxels\<close>

text \<open>
  As stated, for every list of positions, C10 does not hold: numpy reads a negative
  coordinate from the end of its axis, so the position \<open>(x, y, z) = (0, 0, -1)\<close> in a
  cube of shape \<open>(2, 1, 1)\<close> sets the voxel \<open>(1, 0, 0)\<close>, which is the voxel \<open>(z, x, y)\<close>
  of no listed position. (A coordinate beyond the axis raises IndexError, and no volume
  is returned.)
\<close>

theorem create_sourcemap_counterexample:
  "(case create_sourcemap [(0, 0, -1)] (2, 1, 1) of
      Inl e \<Rightarrow> False
    | Inr a \<Rightarrow> voxel a (1, 0, 0) = 1 \<and> \<not> marks_positions [(0, 0, -1)] a)"
  by code_simp

text \<open>
  Claim C10, amended: for every list of catalogue positions that lie inside the cube
  (\<open>0 \<le> z < d0\<close>, \<open>0 \<le> x < d1\<close>, \<open>0 \<le> y < d2\<close>), \<^verbatim>\<open>create_sourcemap\<close> returns a volume of the
  shape of the cube that has the value 1 at exactly the voxel \<open>(z, x, y)\<close> of each listed
  position and 0 everywhere else, so its number of nonzero voxels is at most the number of
  catalogue rows.
\<close>

theorem create_sourcemap_marks_centres:
  assumes "list_all (in_cube dimensions) positions"
  shows "\<exists>a. create_sourcemap positions dimensions = Inr a \<and> vshape a = dimensions \<and>
           (\<forall>i j k. voxel a (i, j, k) = (if (int j, int k, int i) \<in> set positions then 1 else 0)) \<and>
           marks_positions positions a \<and>
           count_nonzero a \<le> length positions"
proof -
  let ?a = "\<lparr>vshape = dimensions,
              voxel = (\<lambda>(i, j, k). if (int j, int k, int i) \<in> set positions then 1 else (0::int))\<rparr>"
  have "create_sourcemap positions dimensions = Inr ?a"
    unfolding create_sourcemap_def using mark_positions_inside [of "\<lparr>vshape = dimensions, voxel = (\<lambda>_. 0)\<rparr>" positions] assms
    by (simp add: fun_eq_iff)
  moreover have "marks_positions positions ?a"
    by (auto simp: marks_positions_def list_all_iff)
  moreover have "count_nonzero ?a \<le> length positions"
    by (rule count_marked) (auto split: if_splits)
  ultimately show ?thesis by auto
qed

theorem create_sourcemap_marks_centres_witness:
  "\<exists>a. create_sourcemap [(1, 2, 0), (0, 0, 1), (1, 2, 0)] (2, 3, 4) = Inr a \<and>
        voxel a (0, 1, 2) = 1 \<and> voxel a (1, 0, 0) = 1 \<and> voxel a (1, 1, 1) = 0 \<and>
        count_nonzero a \<le> 3"
proof -
  have "list_all (in_cube (2, 3, 4)) [(1, 2, 0), (0, 0, 1), (1, 2, 0)]"
    by (simp add: in_cube_def)
  from create_sourcemap_marks_centres [OF this] obtain a where
    a: "create_sourcemap [(1, 2, 0), (0, 0, 1), (1, 2, 0)] (2, 3, 4) = Inr a"
    "\<forall>i j k. voxel a (i, j, k) = (if (int j, int k, int i) \<in> set [(1, 2, 0), (0, 0, 1), (1, 2, 0)] then 1 else 0)"
    "count_nonzero a \<le> length [(1::int, 2::int, 0::int), (0, 0, 1), (1, 2, 0)]"
    by blast
  have "voxel a (0, 1, 2) = 1" "voxel a (1, 0, 0) = 1" "voxel a (1, 1, 1) = 0"
    by (simp_all add: a(2))
  with a(1,3) show ?thesis by auto
qed

section \<open>Properties of \<^verbatim>\<open>dense_cube\<close>\<close>

lemma np_round_nonneg: "0 \<le> v \<Longrightarrow> 0 \<le> np_round v"
  by (auto simp: np_round_def Let_def)

lemma force_odd_odd: "odd (force_odd k)"
  by (simp add: force_odd_def)

lemma force_odd_mod: "(if k mod 2 = 0 then k + 1 else k) = force_odd k"
  by (auto simp: force_odd_def even_iff_mod_2_eq_zero)

lemma force_odd_add: "k + (if k mod 2 = 0 then 1 else 0) = force_odd k"
  by (auto simp: force_odd_def even_iff_mod_2_eq_zero)

lemma astype_int64_id: "0 \<le> v \<Longrightarrow> v < 2 ^ 63 \<Longrightarrow> astype_int64 v = v"
  by (simp add: astype_int64_def)

subsection \<open>Claim C8: the shape of the stamp\<close>

text \<open>
  Claim C8 says that for every record with nonnegative \<^verbatim>\<open>n_channels\<close> and nonnegative
  radii the stamp has the odd side \<open>round(2 * max(major, minor))\<close> forced odd and floored
  at 3, and an odd channel count \<open>round(n_channels)\<close> forced odd. The two rounded values
  pass through the 64-bit cast, so this fails for sizes of \<open>2\<^sup>6\<^sup>3\<close> and more: the record with
  a major radius of \<open>10\<^sup>1\<^sup>9\<close> pixels gets a stamp of shape \<open>(3, 3, 1)\<close>, where the claimed side
  is \<open>2 \<sqdot> 10\<^sup>1\<^sup>9 + 1\<close>; the record with \<open>10\<^sup>1\<^sup>9\<close> channels gets no stamp at all, the count
  handed to \<^verbatim>\<open>np.repeat\<close> being \<open>-2\<^sup>6\<^sup>3 + 1\<close>.
\<close>

theorem dense_cube_shape_counterexample:
  "(case dense_cube example_footprint huge_row of
      Inr st \<Rightarrow> vshape st = (3, 3, 1) | Inl e \<Rightarrow> False) \<and>
   max 3 (force_odd (np_round (2 * max (major_radius_pixels huge_row) (minor_radius_pixels huge_row))))
     = 20000000000000000001 \<and>
   0 \<le> n_channels huge_row \<and> 0 \<le> major_radius_pixels huge_row \<and>
   0 \<le> minor_radius_pixels huge_row \<and>
   (case dense_cube example_footprint deep_row of
      Inr st \<Rightarrow> False | Inl e \<Rightarrow> e = ValueError) \<and>
   0 \<le> n_channels deep_row \<and> 0 \<le> major_radius_pixels deep_row \<and>
   0 \<le> minor_radius_pixels deep_row"
  by code_simp

text \<open>
  Claim C8, amended: for every record with nonnegative \<^verbatim>\<open>n_channels\<close> and nonnegative
  radii whose rounded sizes \<open>round(2 * max(major, minor))\<close> and \<open>round(n_channels)\<close> are
  below \<open>2\<^sup>6\<^sup>3\<close>, \<^verbatim>\<open>dense_cube\<close> returns a stamp of shape \<open>(side, side, channels)\<close> whose
  square cross-section has the odd side \<open>round(2 * max(major, minor))\<close> forced to the next
  odd integer and floored at 3, and whose channel count is \<open>round(n_channels)\<close> forced odd,
  an odd number that is at least 1.
\<close>

theorem dense_cube_shape:
  assumes "0 \<le> n_channels row" "0 \<le> major_radius_pixels row" "0 \<le> minor_radius_pixels row"
    and "np_round (2 * max (major_radius_pixels row) (minor_radius_pixels row)) < 2 ^ 63"
    and "np_round (n_channels row) < 2 ^ 63"
  shows "\<exists>st side channels.
           dense_cube footprint row = Inr st \<and>
           vshape st = (nat side, nat side, nat channels) \<and>
           side = max 3 (force_odd (np_round (2 * max (major_radius_pixels row) (minor_radius_pixels row)))) \<and>
           odd side \<and> 3 \<le> side \<and>
           channels = force_odd (np_round (n_channels row)) \<and>
           odd channels \<and> 1 \<le> channels"
proof -
  let ?side = "max 3 (force_odd (np_round (2 * max (major_radius_pixels row) (minor_radius_pixels row))))"
  let ?ch = "force_odd (np_round (n_channels row))"
  have ch0: "0 \<le> np_round (n_channels row)" using assms(1) by (rule np_round_nonneg)
  have "0 \<le> 2 * max (major_radius_pixels row) (minor_radius_pixels row)"
    using assms(2) by simp
  then have s0: "0 \<le> np_round (2 * max (major_radius_pixels row) (minor_radius_pixels row))"
    by (rule np_round_nonneg)
  have cast_ch: "astype_int64 (np_round (n_channels row)) = np_round (n_channels row)"
    using ch0 assms(5) by (rule astype_int64_id)
  have cast_side: "astype_int64 (np_round (2 * max (major_radius_pixels row) (minor_radius_pixels row)))
      = np_round (2 * max (major_radius_pixels row) (minor_radius_pixels row))"
    using s0 assms(4) by (rule astype_int64_id)
  have ch1: "1 \<le> ?ch"
  proof (cases "even (np_round (n_channels row))")
    case True
    with ch0 show ?thesis by (simp add: force_odd_def)
  next
    case False
    then have "np_round (n_channels row) \<noteq> 0" by auto
    with ch0 False show ?thesis by (simp add: force_odd_def)
  qed
  have "odd ?side" using force_odd_odd by (auto simp: max_def)
  moreover have "3 \<le> ?side" by simp
  moreover have "dense_cube footprint row =
        Inr \<lparr>vshape = (nat ?side, nat ?side, nat ?ch),
             voxel = (\<lambda>(i, j, k). footprint row (nat ?side) (i, j))\<rparr>"
    using ch1 unfolding dense_cube_def cast_ch cast_side Let_def force_odd_mod force_odd_add by simp
  ultimately show ?thesis using ch1 force_odd_odd [of "np_round (n_channels row)"]
    by (intro exI [of _ "\<lparr>vshape = (nat ?side, nat ?side, nat ?ch),
             voxel = (\<lambda>(i, j, k). footprint row (nat ?side) (i, j))\<rparr>"] exI [of _ ?side] exI [of _ ?ch]) simp
qed

theorem dense_cube_shape_witness:
  "\<exists>st. dense_cube example_footprint example_row = Inr st \<and> vshape st = (7, 7, 5)"
proof -
  have "0 \<le> n_channels example_row" "0 \<le> major_radius_pixels example_row"
    "0 \<le> minor_radius_pixels example_row"
    by (simp_all add: example_row_def)
  moreover have
    "np_round (2 * max (major_radius_pixels example_row) (minor_radius_pixels example_row)) < 2 ^ 63"
    "np_round (n_channels example_row) < 2 ^ 63"
    by code_simp+
  ultimately obtain st side channels where st: "dense_cube example_footprint example_row = Inr st"
    "vshape st = (nat side, nat side, nat channels)"
    "side = max 3 (force_odd (np_round (2 * max (major_radius_pixels example_row) (minor_radius_pixels example_row))))"
    "channels = force_odd (np_round (n_channels example_row))"
    using dense_cube_shape [of example_row example_footprint] by blast
  have "side = 7" unfolding st(3) by code_simp
  moreover have "channels = 5" unfolding st(4) by code_simp
  ultimately show ?thesis using st(1,2) by simp
qed
section \<open>Properties of \<^verbatim>\<open>create_from_df\<close>\<close>

text \<open>
  A slice assignment changes cells of its region only; a round of the loop changes cells
  only if the record passes the threshold test, and then only in the region of the record.
\<close>

lemma dok_setitem_frame:
  assumes "dok_setitem cube s0 s1 s2 val = Inr cube'"
  shows "vshape cube' = vshape cube"
    and "voxel cube' v \<noteq> voxel cube v \<Longrightarrow> in_region v (slice_ranges (vshape cube) s0 s1 s2)"
proof -
  let ?rs = "slice_ranges (vshape cube) s0 s1 s2"
  from assms have c': "cube' = cube\<lparr>voxel := (\<lambda>v. if in_region v ?rs then value_cell ?rs val v else voxel cube v)\<rparr>"
    unfolding dok_setitem_def Let_def by (cases "value_too_short ?rs (vshape val)") simp_all
  show "vshape cube' = vshape cube" by (simp add: c')
  assume "voxel cube' v \<noteq> voxel cube v"
  then show "in_region v ?rs" by (simp add: c' split: if_splits)
qed

lemma insert_row_skip:
  "\<not> rasterised min_axis_pixels row \<Longrightarrow> insert_row footprint min_axis_pixels cube row = Inr cube"
  by (simp add: insert_row_def rasterised_def)

lemma insert_row_frame:
  assumes "insert_row footprint min_axis_pixels cube row = Inr cube'"
  shows "vshape cube' = vshape cube"
    and "voxel cube' v \<noteq> voxel cube v \<Longrightarrow>
           rasterised min_axis_pixels row \<and> in_region v (row_region footprint (vshape cube) row)"
proof -
  have "vshape cube' = vshape cube \<and>
        (voxel cube' v \<noteq> voxel cube v \<longrightarrow>
           rasterised min_axis_pixels row \<and> in_region v (row_region footprint (vshape cube) row))"
  proof (cases "rasterised min_axis_pixels row")
    case False
    with assms show ?thesis by (simp add: insert_row_skip)
  next
    case True
    then have nt: "\<not> 2 * minor_radius_pixels row < min_axis_pixels" by (simp add: rasterised_def)
    from assms nt obtain st where st: "dense_cube footprint row = Inr st"
      by (cases "dense_cube footprint row") (simp_all add: insert_row_def)
    define spans where "spans = get_spans (shape_list (vshape cube)) (shape_list (vshape st))
                              [row_x row, row_y row, row_z row]"
    define centers where "centers = map (\<lambda>s. to_int (real_of_int s / 2)) (shape_list (vshape st))"
    have ir: "insert_row footprint min_axis_pixels cube row =
          (case (spans, centers) of
             ([sp0, sp1, sp2], [c0, c1, c2]) \<Rightarrow>
               dok_setitem cube (dest_range (row_x row) sp0) (dest_range (row_y row) sp1)
                                (dest_range (row_z row) sp2)
                 (slice3 st (dest_range c0 sp0) (dest_range c1 sp1) (dest_range c2 sp2))
           | _ \<Rightarrow> Inl ValueError)"
      using nt by (simp add: insert_row_def st spans_def centers_def)
    from assms obtain sp0 sp1 sp2 val where sp: "spans = [sp0, sp1, sp2]"
      and dk: "dok_setitem cube (dest_range (row_x row) sp0) (dest_range (row_y row) sp1)
                                (dest_range (row_z row) sp2) val = Inr cube'"
      unfolding ir by (auto split: list.splits)
    have rr: "row_region footprint (vshape cube) row =
              slice_ranges (vshape cube) (dest_range (row_x row) sp0) (dest_range (row_y row) sp1)
                                  (dest_range (row_z row) sp2)"
      using sp by (simp add: row_region_def st spans_def)
    from dok_setitem_frame [OF dk] True show ?thesis by (auto simp: rr)
  qed
  then show "vshape cube' = vshape cube"
    and "voxel cube' v \<noteq> voxel cube v \<Longrightarrow>
           rasterised min_axis_pixels row \<and> in_region v (row_region footprint (vshape cube) row)"
    by simp_all
qed

lemma insert_rows_frame:
  assumes "insert_rows footprint min_axis_pixels df cube = Inr cube'"
  shows "vshape cube' = vshape cube \<and>
         (\<forall>v. voxel cube' v \<noteq> voxel cube v \<longrightarrow>
              (\<exists>row\<in>set df. rasterised min_axis_pixels row \<and>
                              in_region v (row_region footprint (vshape cube) row)))"
  using assms
proof (induction df arbitrary: cube)
  case Nil
  then show ?case by simp
next
  case (Cons row df)
  from Cons.prems obtain c1 where c1: "insert_row footprint min_axis_pixels cube row = Inr c1"
    and rest: "insert_rows footprint min_axis_pixels df c1 = Inr cube'"
    by (auto split: sum.splits)
  note f1 = insert_row_frame [OF c1]
  note IH = Cons.IH [OF rest]
  show ?case
  proof (intro conjI allI impI)
    show "vshape cube' = vshape cube" using IH f1(1) by simp
  next
    fix v assume ch: "voxel cube' v \<noteq> voxel cube v"
    show "\<exists>r\<in>set (row # df). rasterised min_axis_pixels r \<and>
                              in_region v (row_region footprint (vshape cube) r)"
    proof (cases "voxel cube' v = voxel c1 v")
      case True
      with ch have "voxel c1 v \<noteq> voxel cube v" by simp
      from f1(2) [OF this] show ?thesis by simp
    next
      case False
      with IH obtain r where "r \<in> set df" "rasterised min_axis_pixels r"
        "in_region v (row_region footprint (vshape c1) r)" by blast
      then show ?thesis using f1(1) by auto
    qed
  qed
qed

lemma insert_rows_filter:
  "insert_rows footprint min_axis_pixels (filter (rasterised min_axis_pixels) df) cube
   = insert_rows footprint min_axis_pixels df cube"
  by (induction df arbitrary: cube) (auto simp: insert_row_skip split: sum.splits)

subsection \<open>Claim C7: nonzero voxels lie in the span of a rasterised record\<close>

text \<open>
  Claim C7: in the volume that \<^verbatim>\<open>create_from_df\<close> returns (it has the shape of the cube),
  every nonzero voxel lies within the clipped stamp span of some catalogue record with
  \<open>2 * minor_radius_pixels \<ge> min_axis_pixels\<close>, so voxels outside every such span are 0;
  and the records below the threshold contribute nothing: without them the volume is the
  same.
\<close>

theorem create_from_df_nonzero_in_span:
  assumes "create_from_df footprint min_axis_pixels naxis df = Inr cube"
  shows "vshape cube = naxis \<and>
         (\<forall>v. voxel cube v \<noteq> 0 \<longrightarrow>
              (\<exists>row\<in>set df. min_axis_pixels \<le> 2 * minor_radius_pixels row \<and>
                              in_region v (row_region footprint naxis row))) \<and>
         create_from_df footprint min_axis_pixels naxis (filter (rasterised min_axis_pixels) df) = Inr cube"
proof -
  from insert_rows_frame [OF assms [unfolded create_from_df_def]]
  have "vshape cube = naxis"
    and "\<forall>v. voxel cube v \<noteq> 0 \<longrightarrow>
              (\<exists>row\<in>set df. rasterised min_axis_pixels row \<and>
                              in_region v (row_region footprint naxis row))"
    by simp_all
  moreover have "create_from_df footprint min_axis_pixels naxis (filter (rasterised min_axis_pixels) df) = Inr cube"
    using assms by (simp add: create_from_df_def insert_rows_filter)
  ultimately show ?thesis by (simp add: rasterised_def)
qed

theorem create_from_df_nonzero_in_span_witness:
  "\<exists>cube. create_from_df example_footprint 0 (32, 32, 32) [unit_row] = Inr cube \<and>
          vshape cube = (32, 32, 32) \<and>
          (\<forall>v. voxel cube v \<noteq> 0 \<longrightarrow> in_region v [(9, 12), (9, 12), (10, 11)])"
proof -
  have "\<not> isl (create_from_df example_footprint 0 (32, 32, 32) [unit_row])" by code_simp
  then obtain cube where c: "create_from_df example_footprint 0 (32, 32, 32) [unit_row] = Inr cube"
    by (cases "create_from_df example_footprint 0 (32, 32, 32) [unit_row]") auto
  have rr: "row_region example_footprint (32, 32, 32) unit_row = [(9, 12), (9, 12), (10, 11)]"
    by code_simp
  from create_from_df_nonzero_in_span [OF c] have "vshape cube = (32, 32, 32)"
    and "\<forall>v. voxel cube v \<noteq> 0 \<longrightarrow> in_region v (row_region example_footprint (32, 32, 32) unit_row)"
    by auto
  with c show ?thesis unfolding rr by blast
qed

section \<open>Properties of \<^verbatim>\<open>create_data_set\<close>\<close>

text \<open>
  No step of the two loops changes the layout of the data set: an assignment to a row of
  an array keeps the shape of the array and the keys of the dictionary.
\<close>

lemma bind_err_Inr: "(bind_err m f = Inr y) = (\<exists>v. m = Inr v \<and> f v = Inr y)"
  by (cases m) (simp_all add: bind_err_def)














subsection \<open>The steps of the two loops on windows that fit the cube\<close>











subsection \<open>Where the windows are placed\<close>









subsection \<open>The loop over the sources does not raise\<close>





subsection \<open>The sizes computed from the catalogue\<close>






subsection \<open>The loop over the empty cubes\<close>








subsection \<open>Every returned data set has the layout\<close>








subsection \<open>Claim C6: the arrays of the data set\<close>




subsection \<open>Claim C4: the number of frequency windows of a record\<close>

text \<open>
  When \<^verbatim>\<open>freq_points_f\<close> is not supplied, the table is
  \<^verbatim>\<open>np.arange(min, max + 1) * 2 + 1\<close>: its entry number \<open>k\<close> is \<open>2 * (min + k) + 1\<close>. The
  product with \<^verbatim>\<open>np.bincount(part_size)\<close> and the lookup \<^verbatim>\<open>freq_points_f[part_size[i]]\<close>
  both read it as if entry number \<open>b\<close> belonged to the partition size \<open>b\<close>. So whenever the
  lookup gives a number for a record, the smallest partition size of the catalogue is
  \<open>0\<close> and the number is \<open>2 * b + 1\<close>; and for a catalogue whose smallest partition size is
  \<open>0\<close> the lookup gives \<open>2 * b + 1\<close> for every record.
\<close>

lemma make_plan_not_supplied:
  assumes "make_plan df prob_galaxy freq_band spatial_points NotSupplied = Inr pl"
  shows "part_size pl \<noteq> []"
    and "\<forall>b\<in>set (part_size pl). 0 \<le> b"
    and "freq_points pl = map (\<lambda>b. b * 2 + 1) [Min (set (part_size pl))..Max (set (part_size pl))]"
    and "nat (Max (set (part_size pl)) + 1) = length (freq_points pl) \<or>
         nat (Max (set (part_size pl)) + 1) = 1 \<or> length (freq_points pl) = 1"
proof -
  let ?ps = "part_sizes df freq_band"
  from assms have ne: "df \<noteq> []" by (auto simp: make_plan_def split: if_splits)
  then have psne: "?ps \<noteq> []" by (simp add: part_sizes_def)
  from assms ne obtain table counts products where
    t: "freq_points_table NotSupplied ?ps = Inr table"
    and c: "np_bincount ?ps = Inr counts"
    and m: "np_mul counts table = Inr products"
    and pl: "part_size pl = ?ps" "freq_points pl = table"
    by (auto simp: make_plan_def bind_err_Inr Let_def split: if_splits)
  show "part_size pl \<noteq> []" using psne pl by simp
  from c show nn: "\<forall>b\<in>set (part_size pl). 0 \<le> b"
    by (auto simp: np_bincount_def pl list_ex_iff split: if_splits)
  from t psne show "freq_points pl = map (\<lambda>b. b * 2 + 1) [Min (set (part_size pl))..Max (set (part_size pl))]"
    by (simp add: freq_points_table_def pl)
  from c psne have "length counts = nat (Max (set ?ps) + 1)"
    by (auto simp: np_bincount_def split: if_splits)
  with m show "nat (Max (set (part_size pl)) + 1) = length (freq_points pl) \<or>
         nat (Max (set (part_size pl)) + 1) = 1 \<or> length (freq_points pl) = 1"
    by (auto simp: np_mul_def pl split: if_splits)
qed

lemma freq_windows_not_supplied:
  assumes "make_plan df prob_galaxy freq_band spatial_points NotSupplied = Inr pl"
    and b: "b \<in> set (part_size pl)"
    and g: "np_get (freq_points pl) b = Inr points"
  shows "points = 2 * b + 1"
proof -
  let ?mn = "Min (set (part_size pl))" and ?mx = "Max (set (part_size pl))"
  note mp = make_plan_not_supplied [OF assms(1)]
  have b0: "0 \<le> b" using mp(2) b by blast
  have mnb: "?mn \<le> b" and bmx: "b \<le> ?mx" using b by simp_all
  have "?mn \<in> set (part_size pl)" using mp(1) by (intro Min_in) auto
  then have mn0: "0 \<le> ?mn" using mp(2) by blast
  have len: "length (freq_points pl) = nat (?mx - ?mn + 1)" by (simp add: mp(3))
  from g b0 have lt: "nat b < length (freq_points pl)" and p: "points = freq_points pl ! nat b"
    by (auto simp: np_get_def np_index_def split: if_splits)
  have "[?mn..?mx] ! nat b = ?mn + int (nat b)"
    using lt len by (intro nth_upto) linarith
  then have p': "points = (?mn + b) * 2 + 1"
    using lt b0 unfolding p mp(3) by simp
  from mp(4) have "?mn = 0"
  proof (elim disjE)
    assume "nat (?mx + 1) = length (freq_points pl)"
    with len mn0 mnb bmx show ?thesis by linarith
  next
    assume "nat (?mx + 1) = 1"
    with mn0 mnb bmx show ?thesis by linarith
  next
    assume "length (freq_points pl) = 1"
    with lt b0 mnb mn0 show ?thesis by linarith
  qed
  with p' show ?thesis by simp
qed

lemma freq_windows_min_zero:
  assumes "make_plan df prob_galaxy freq_band spatial_points NotSupplied = Inr pl"
    and b: "b \<in> set (part_size pl)"
    and z: "Min (set (part_size pl)) = 0"
  shows "np_get (freq_points pl) b = Inr (2 * b + 1)"
proof -
  note mp = make_plan_not_supplied [OF assms(1)]
  have b0: "0 \<le> b" using mp(2) b by blast
  have bmx: "b \<le> Max (set (part_size pl))" using b by simp
  have "length (freq_points pl) = nat (Max (set (part_size pl)) + 1)" by (simp add: mp(3) z)
  with b0 bmx have "b < int (length (freq_points pl))" by linarith
  with b0 have g: "np_get (freq_points pl) b = Inr (freq_points pl ! nat b)"
    by (simp add: np_get_def np_index_def)
  from freq_windows_not_supplied [OF assms(1) b g] g show ?thesis by simp
qed

text \<open>
  Claim C4 says that the number of frequency windows drawn for a record of partition size
  \<open>b\<close> is \<open>2 * b + 1\<close> for every catalogue. For a catalogue whose smallest partition size is
  not \<open>0\<close> the code draws none: it raises. With two records of partition size 2 the table
  is \<open>[5]\<close>, and the lookup of entry 2 for the first record raises IndexError before the
  loop over the empty cubes is reached (no fuel is used).
\<close>

theorem create_data_set_wide_catalogue_raises:
  "(case create_data_set example_libs 0 wide_df example_cube (1 / 2) 2 0 1 1 NotSupplied None example_rng_a of
      Some (Inl e) \<Rightarrow> e = IndexError
    | _ \<Rightarrow> False) \<and>
   part_sizes wide_df 1 = [2, 2] \<and>
   freq_points_table NotSupplied [2, 2] = Inr [5] \<and>
   np_get [5] 2 = Inl IndexError"
  by code_simp

end
